theory Spec2Isabelle
  imports Main
begin

unbundle bit_operations_syntax

section \<open>Values, exceptions and external collaborators\<close>

text \<open>
  The cursor of \<^verbatim>\<open>apymongo/cursor.py\<close> is Python 2 code over dynamically typed values.
  \<open>pyval\<close> is the fragment of those values the cursor inspects: \<open>PInt\<close> is a Python
  \<^verbatim>\<open>int\<close>, \<open>PLong\<close> a Python 2 \<^verbatim>\<open>long\<close>, \<open>PCode\<close> a \<^verbatim>\<open>bson.code.Code\<close>, \<open>PDict\<close> a
  \<^verbatim>\<open>dict\<close> or \<^verbatim>\<open>SON\<close> with string keys, and \<open>PObj\<close> any other object (a callable, a
  class), known only by an identifier.
\<close>

datatype pyval =
    PNone
  | PBool bool
  | PInt int
  | PLong int
  | PStr string
  | PCode string
  | PList "pyval list"
  | PDict "(string \<times> pyval) list"
  | PObj nat

datatype pyexc =
    TypeError string
  | ValueError string
  | InvalidOperation string
  | AssertionError
  | AutoReconnect string
  | ConnectionFailure string
  | OperationFailure string

text \<open>Python truth value testing (\<^verbatim>\<open>if x:\<close>, \<^verbatim>\<open>x and y\<close>, \<^verbatim>\<open>not x\<close>).\<close>

fun truthy :: "pyval \<Rightarrow> bool" where
  "truthy PNone = False"
| "truthy (PBool b) = b"
| "truthy (PInt n) = (n \<noteq> 0)"
| "truthy (PLong n) = (n \<noteq> 0)"
| "truthy (PStr s) = (s \<noteq> [])"
| "truthy (PCode s) = (s \<noteq> [])"
| "truthy (PList xs) = (xs \<noteq> [])"
| "truthy (PDict kvs) = (kvs \<noteq> [])"
| "truthy (PObj k) = True"

text \<open>
  \<^verbatim>\<open>isinstance(x, int)\<close>: a Python \<^verbatim>\<open>bool\<close> is an \<^verbatim>\<open>int\<close> (\<^verbatim>\<open>True == 1\<close>), a Python 2
  \<^verbatim>\<open>long\<close> is not. The result is the number the value stands for.
\<close>

fun as_int :: "pyval \<Rightarrow> int option" where
  "as_int (PInt n) = Some n"
| "as_int (PBool b) = Some (if b then 1 else 0)"
| "as_int v = None"

text \<open>\<^verbatim>\<open>isinstance(x, (int, long))\<close>.\<close>

fun as_int_or_long :: "pyval \<Rightarrow> int option" where
  "as_int_or_long (PLong n) = Some n"
| "as_int_or_long v = as_int v"

text \<open>\<^verbatim>\<open>isinstance(x, bool)\<close>.\<close>

fun as_bool :: "pyval \<Rightarrow> bool option" where
  "as_bool (PBool b) = Some b"
| "as_bool v = None"

text \<open>\<^verbatim>\<open>isinstance(x, dict)\<close>.\<close>

fun as_dict :: "pyval \<Rightarrow> (string \<times> pyval) list option" where
  "as_dict (PDict kvs) = Some kvs"
| "as_dict v = None"

text \<open>\<^verbatim>\<open>d[k] = v\<close> on a dictionary kept as an association list: an existing key keeps its
  place, a new key goes last (the order a \<^verbatim>\<open>SON\<close> keeps).\<close>

fun dict_set :: "(string \<times> pyval) list \<Rightarrow> string \<Rightarrow> pyval \<Rightarrow> (string \<times> pyval) list" where
  "dict_set [] k v = [(k, v)]"
| "dict_set ((k', v') # kvs) k v =
     (if k' = k then (k, v) # kvs else (k', v') # dict_set kvs k v)"

text \<open>\<^verbatim>\<open>k in d\<close>.\<close>

definition dict_has :: "(string \<times> pyval) list \<Rightarrow> string \<Rightarrow> bool" where
  "dict_has kvs k = (map_of kvs k \<noteq> None)"

text \<open>
  What the cursor reads through \<^verbatim>\<open>self.__collection\<close>: the collection's names and the
  settings of \<^verbatim>\<open>collection.database.connection\<close>.
\<close>

record collection =
  full_name :: string
  name :: string
  document_class :: pyval
  tz_aware :: bool
  slave_okay :: bool

text \<open>The decoded reply, the dictionary \<^verbatim>\<open>helpers._unpack_response\<close> returns.\<close>

record reply =
  cursor_id :: int
  starting_from :: int
  number_returned :: int
  data :: "pyval list"

type_synonym raw = string

text \<open>
  The functions the cursor calls that live outside \<^verbatim>\<open>cursor.py\<close> (\<^verbatim>\<open>apymongo.helpers\<close>,
  the database's \<^verbatim>\<open>_fix_outgoing\<close>, the call of the user's \<^verbatim>\<open>processor\<close> object, and the
  constructor of \<^verbatim>\<open>bson.code.Code\<close>) are
  parameters of the model. The helpers and the constructor return an exception or a
  value; \<^verbatim>\<open>_fix_outgoing\<close> and the processor are taken to return a document.
\<close>

record helpers =
  fields_list_to_dict :: "pyval \<Rightarrow> pyexc + pyval"
  index_list :: "pyval \<Rightarrow> pyval \<Rightarrow> pyexc + pyval"
  index_document :: "pyval \<Rightarrow> pyexc + pyval"
  unpack_response :: "raw \<Rightarrow> int option \<Rightarrow> pyval \<Rightarrow> bool \<Rightarrow> pyexc + reply"
  fix_outgoing :: "pyval \<Rightarrow> collection \<Rightarrow> pyval"
  call_processor :: "pyval \<Rightarrow> pyval \<Rightarrow> collection \<Rightarrow> pyval"
  Code :: "pyval \<Rightarrow> pyexc + pyval"

section \<open>The cursor\<close>

text \<open>
  One field per attribute \<^verbatim>\<open>__init__\<close> sets; \<^verbatim>\<open>self.__limit\<close> is \<open>c__limit\<close>, and so on.
  \<open>c__id\<close> is \<open>None\<close> while the cursor has not been queried.
\<close>

record cursor =
  c__id :: "int option"
  c__error :: "pyexc option"
  c__collection :: collection
  c__callback :: pyval
  c__processor :: pyval
  c__spec :: "(string \<times> pyval) list"
  c__fields :: pyval
  c__skip :: int
  c__limit :: int
  c__batch_size :: int
  c__store :: pyval
  c__empty :: bool
  c__timeout :: bool
  c__tailable :: bool
  c__snapshot :: bool
  c__ordering :: pyval
  c__max_scan :: pyval
  c__explain :: bool
  c__hint :: pyval
  c__as_class :: pyval
  c__tz_aware :: bool
  c__must_use_master :: bool
  c__is_command :: bool
  c__data :: "pyval list"
  c__datastore :: "pyval list"
  c__connection_id :: "int option"
  c__retrieved :: int
  c__killed :: bool
  c__kwargs :: "(string \<times> pyval) list"

text \<open>The parameters of \<^verbatim>\<open>Cursor.__init__\<close> after \<^verbatim>\<open>collection\<close>, in the order of the
  signature, and their default values.\<close>

record init_args =
  a_callback :: pyval
  a_processor :: pyval
  a_spec :: pyval
  a_fields :: pyval
  a_skip :: pyval
  a_limit :: pyval
  a_timeout :: pyval
  a_snapshot :: pyval
  a_tailable :: pyval
  a_sort :: pyval
  a_max_scan :: pyval
  a_as_class :: pyval
  a_store :: pyval
  a_must_use_master :: bool
  a_is_command :: bool
  a_kwargs :: "(string \<times> pyval) list"

definition default_args :: init_args where
  "default_args =
     \<lparr> a_callback = PNone, a_processor = PNone, a_spec = PNone, a_fields = PNone,
       a_skip = PInt 0, a_limit = PInt 0, a_timeout = PBool True, a_snapshot = PBool False,
       a_tailable = PBool False, a_sort = PNone, a_max_scan = PNone, a_as_class = PNone,
       a_store = PBool True, a_must_use_master = False, a_is_command = False,
       a_kwargs = [] \<rparr>"


text \<open>
  \<^verbatim>\<open>Cursor.__init__\<close>. The checks come in the source's order, each raising
  \<^verbatim>\<open>TypeError\<close>; \<^verbatim>\<open>self.__batch_size\<close> starts at 0 and the iteration state is empty.
\<close>

definition Cursor_init :: "helpers \<Rightarrow> collection \<Rightarrow> init_args \<Rightarrow> pyexc + cursor" where
  "Cursor_init h coll a =
     (let spec = (if a_spec a = PNone then PDict [] else a_spec a) in
      case as_dict spec of
        None \<Rightarrow> Inl (TypeError ''spec must be an instance of dict'')
      | Some spec_d \<Rightarrow>
      (case as_int (a_skip a) of
        None \<Rightarrow> Inl (TypeError ''skip must be an instance of int'')
      | Some skip_i \<Rightarrow>
      (case as_int (a_limit a) of
        None \<Rightarrow> Inl (TypeError ''limit must be an instance of int'')
      | Some limit_i \<Rightarrow>
      (case as_bool (a_timeout a) of
        None \<Rightarrow> Inl (TypeError ''timeout must be an instance of bool'')
      | Some timeout_b \<Rightarrow>
      (case as_bool (a_snapshot a) of
        None \<Rightarrow> Inl (TypeError ''snapshot must be an instance of bool'')
      | Some snapshot_b \<Rightarrow>
      (case as_bool (a_tailable a) of
        None \<Rightarrow> Inl (TypeError ''tailable must be an instance of bool'')
      | Some tailable_b \<Rightarrow>
      (case (if a_fields a = PNone then Inr PNone
             else (let flds = (if \<not> truthy (a_fields a) then PDict [(''_id'', PInt 1)]
                               else a_fields a) in
                   if as_dict flds = None then fields_list_to_dict h flds
                   else Inr flds)) of
        Inl e \<Rightarrow> Inl e
      | Inr flds \<Rightarrow>
      (case (if truthy (a_sort a)
             then (case index_document h (a_sort a) of
                     Inl e \<Rightarrow> Inl e
                   | Inr d \<Rightarrow> Inr (if truthy d then d else PNone))
             else Inr PNone) of
        Inl e \<Rightarrow> Inl e
      | Inr ordr \<Rightarrow>
          Inr \<lparr> c__id = None,
                c__error = None,
                c__collection = coll,
                c__callback = a_callback a,
                c__processor = a_processor a,
                c__spec = spec_d,
                c__fields = flds,
                c__skip = skip_i,
                c__limit = limit_i,
                c__batch_size = 0,
                c__store = a_store a,
                c__empty = False,
                c__timeout = timeout_b,
                c__tailable = tailable_b,
                c__snapshot = snapshot_b,
                c__ordering = ordr,
                c__max_scan = a_max_scan a,
                c__explain = False,
                c__hint = PNone,
                c__as_class = (if a_as_class a = PNone then document_class coll
                               else a_as_class a),
                c__tz_aware = tz_aware coll,
                c__must_use_master = a_must_use_master a,
                c__is_command = a_is_command a,
                c__data = [],
                c__datastore = [],
                c__connection_id = None,
                c__retrieved = 0,
                c__killed = False,
                c__kwargs = a_kwargs a \<rparr>))))))))"

text \<open>
  What goes out of the cursor: a message handed to
  \<^verbatim>\<open>connection._send_message_with_response\<close>, a \<^verbatim>\<open>connection.close_cursor\<close> call (with
  the connection id when one is known), \<^verbatim>\<open>connection.disconnect()\<close>, and a call of
  \<^verbatim>\<open>self.__callback\<close> with the stored error or with the accumulated documents.
\<close>

datatype message =
    Query int string int int "(string \<times> pyval) list" pyval
  | GetMore string int int

datatype event =
    SendMessage message
  | CloseCursor int "int option"
  | Disconnect
  | CallbackError pyexc
  | CallbackDocs "pyval list"

text \<open>\<^verbatim>\<open>Cursor.rewind\<close>.\<close>

definition rewind :: "cursor \<Rightarrow> cursor" where
  "rewind c = c\<lparr> c__data := [], c__id := None, c__connection_id := None,
                 c__retrieved := 0, c__killed := False \<rparr>"

text \<open>
  \<^verbatim>\<open>Cursor.clone\<close>. The call passes eight positional arguments, which \<^verbatim>\<open>__init__\<close> binds
  to its first eight parameters after \<^verbatim>\<open>self\<close>: \<^verbatim>\<open>collection, callback, processor, spec,
  fields, skip, limit, timeout\<close>.
\<close>

definition clone :: "helpers \<Rightarrow> cursor \<Rightarrow> pyexc + cursor" where
  "clone h c =
     (case Cursor_init h (c__collection c)
             (default_args\<lparr> a_callback := PDict (c__spec c),
                            a_processor := c__fields c,
                            a_spec := PInt (c__skip c),
                            a_fields := PInt (c__limit c),
                            a_skip := PBool (c__timeout c),
                            a_limit := PBool (c__tailable c),
                            a_timeout := PBool (c__snapshot c) \<rparr>) of
        Inl e \<Rightarrow> Inl e
      | Inr copy \<Rightarrow>
          Inr (copy\<lparr> c__ordering := c__ordering c,
                     c__explain := c__explain c,
                     c__hint := c__hint c,
                     c__batch_size := c__batch_size c \<rparr>))"

text \<open>\<^verbatim>\<open>if self.__id\<close>: the id is set and is not 0.\<close>

definition live_id :: "cursor \<Rightarrow> bool" where
  "live_id c = (case c__id c of None \<Rightarrow> False | Some i \<Rightarrow> i \<noteq> 0)"

text \<open>\<^verbatim>\<open>Cursor.__die\<close>: the cursor after the call and the \<^verbatim>\<open>close_cursor\<close> calls made.\<close>

definition die :: "cursor \<Rightarrow> cursor \<times> event list" where
  "die c =
     (c\<lparr> c__killed := True \<rparr>,
      (case c__id c of
         None \<Rightarrow> []
       | Some i \<Rightarrow>
           if i \<noteq> 0 \<and> \<not> c__killed c
           then (case c__connection_id c of
                   Some k \<Rightarrow> [CloseCursor i (Some k)]
                 | None \<Rightarrow> [CloseCursor i None])
           else []))"

text \<open>\<^verbatim>\<open>Cursor.__del__\<close>.\<close>

definition del :: "cursor \<Rightarrow> cursor \<times> event list" where
  "del c = (if live_id c \<and> \<not> c__killed c then die c else (c, []))"

text \<open>
  \<^verbatim>\<open>Cursor.__query_spec\<close>. When the filter is not wrapped (\<^verbatim>\<open>_is_command\<close>, or a
  \<^verbatim>\<open>$query\<close> key is there already) \<^verbatim>\<open>spec\<close> is the cursor's own dictionary, so the keys
  added are added to \<^verbatim>\<open>self.__spec\<close> as well; the cursor is returned with the result.
\<close>

definition add_modifiers :: "cursor \<Rightarrow> (string \<times> pyval) list \<Rightarrow> (string \<times> pyval) list" where
  "add_modifiers c spec0 =
     (let spec1 = (if truthy (c__ordering c) then dict_set spec0 ''$orderby'' (c__ordering c)
                   else spec0);
          spec2 = (if c__explain c then dict_set spec1 ''$explain'' (PBool True) else spec1);
          spec3 = (if truthy (c__hint c) then dict_set spec2 ''$hint'' (c__hint c) else spec2);
          spec4 = (if c__snapshot c then dict_set spec3 ''$snapshot'' (PBool True) else spec3)
      in if truthy (c__max_scan c) then dict_set spec4 ''$maxScan'' (c__max_scan c)
         else spec4)"

definition query_spec :: "cursor \<Rightarrow> (string \<times> pyval) list \<times> cursor" where
  "query_spec c =
     (if \<not> c__is_command c \<and> \<not> dict_has (c__spec c) ''$query''
      then (add_modifiers c [(''$query'', PDict (c__spec c))], c)
      else (let spec = add_modifiers c (c__spec c) in (spec, c\<lparr> c__spec := spec \<rparr>)))"

text \<open>\<^verbatim>\<open>Cursor.__query_options\<close>, with the values of \<^verbatim>\<open>_QUERY_OPTIONS\<close>.\<close>

definition query_options :: "cursor \<Rightarrow> int" where
  "query_options c =
     (let o1 = (if c__tailable c then (0::int) OR 2 else 0);
          o2 = (if slave_okay (c__collection c) then o1 OR 4 else o1)
      in if \<not> c__timeout c then o2 OR 16 else o2)"


section \<open>The chain API\<close>

text \<open>\<^verbatim>\<open>Cursor.__check_okay_to_chain\<close>: the exception raised, if any.\<close>

definition check_okay_to_chain :: "cursor \<Rightarrow> pyexc option" where
  "check_okay_to_chain c =
     (if c__retrieved c \<noteq> 0 \<or> c__id c \<noteq> None
      then Some (InvalidOperation ''cannot set options after executing query'')
      else None)"

text \<open>Each method returns \<^verbatim>\<open>self\<close>: the cursor as the method leaves it.\<close>

definition limit :: "cursor \<Rightarrow> pyval \<Rightarrow> pyexc + cursor" where
  "limit c v =
     (case as_int v of
        None \<Rightarrow> Inl (TypeError ''limit must be an int'')
      | Some n \<Rightarrow>
          (case check_okay_to_chain c of
             Some e \<Rightarrow> Inl e
           | None \<Rightarrow> Inr (c\<lparr> c__empty := False, c__limit := n \<rparr>)))"

definition batch_size :: "cursor \<Rightarrow> pyval \<Rightarrow> pyexc + cursor" where
  "batch_size c v =
     (case as_int v of
        None \<Rightarrow> Inl (TypeError ''batch_size must be an int'')
      | Some b \<Rightarrow>
          if b < 0 then Inl (ValueError ''batch_size must be >= 0'')
          else (case check_okay_to_chain c of
                  Some e \<Rightarrow> Inl e
                | None \<Rightarrow> Inr (c\<lparr> c__batch_size := (if b = 1 then 2 else b) \<rparr>)))"

definition skip :: "cursor \<Rightarrow> pyval \<Rightarrow> pyexc + cursor" where
  "skip c v =
     (case as_int_or_long v of
        None \<Rightarrow> Inl (TypeError ''skip must be an int'')
      | Some n \<Rightarrow>
          (case check_okay_to_chain c of
             Some e \<Rightarrow> Inl e
           | None \<Rightarrow> Inr (c\<lparr> c__skip := n \<rparr>)))"

definition max_scan :: "cursor \<Rightarrow> pyval \<Rightarrow> pyexc + cursor" where
  "max_scan c v =
     (case check_okay_to_chain c of
        Some e \<Rightarrow> Inl e
      | None \<Rightarrow> Inr (c\<lparr> c__max_scan := v \<rparr>))"

definition sort_cursor :: "helpers \<Rightarrow> cursor \<Rightarrow> pyval \<Rightarrow> pyval \<Rightarrow> pyexc + cursor" where
  "sort_cursor h c key_or_list direction =
     (case check_okay_to_chain c of
        Some e \<Rightarrow> Inl e
      | None \<Rightarrow>
          (case index_list h key_or_list direction of
             Inl e \<Rightarrow> Inl e
           | Inr keys \<Rightarrow>
               (case index_document h keys of
                  Inl e \<Rightarrow> Inl e
                | Inr d \<Rightarrow> Inr (c\<lparr> c__ordering := d \<rparr>))))"

definition hint :: "helpers \<Rightarrow> cursor \<Rightarrow> pyval \<Rightarrow> pyexc + cursor" where
  "hint h c index =
     (case check_okay_to_chain c of
        Some e \<Rightarrow> Inl e
      | None \<Rightarrow>
          if index = PNone then Inr (c\<lparr> c__hint := PNone \<rparr>)
          else (case index_document h index of
                  Inl e \<Rightarrow> Inl e
                | Inr d \<Rightarrow> Inr (c\<lparr> c__hint := d \<rparr>)))"

definition where_cursor :: "helpers \<Rightarrow> cursor \<Rightarrow> pyval \<Rightarrow> pyexc + cursor" where
  "where_cursor h c code =
     (case check_okay_to_chain c of
        Some e \<Rightarrow> Inl e
      | None \<Rightarrow>
          (case (case code of PCode s \<Rightarrow> Inr code | _ \<Rightarrow> Code h code) of
             Inl e \<Rightarrow> Inl e
           | Inr code' \<Rightarrow> Inr (c\<lparr> c__spec := dict_set (c__spec c) ''$where'' code' \<rparr>)))"

text \<open>\<^verbatim>\<open>Cursor.alive\<close>.\<close>

definition alive :: "cursor \<Rightarrow> bool" where
  "alive c = (length (c__data c) \<noteq> 0 \<or> \<not> c__killed c)"

section \<open>The protocol driver\<close>

text \<open>
  \<^verbatim>\<open>Cursor._refresh\<close> and \<^verbatim>\<open>__send_message\<close> up to the hand-over to the connection: the
  message sent, if any. With the id set to 0 neither branch is taken and nothing is sent.
\<close>

definition refresh :: "cursor \<Rightarrow> cursor \<times> event list" where
  "refresh c =
     (case c__id c of
        None \<Rightarrow>
          (let (spec, c') = query_spec c
           in (c', [SendMessage (Query (query_options c) (full_name (c__collection c))
                                       (c__skip c) (c__limit c) spec (c__fields c))]))
      | Some i \<Rightarrow>
          if i \<noteq> 0
          then (let lim = (if c__limit c \<noteq> 0
                           then (let lim0 = c__limit c - c__retrieved c
                                 in if c__batch_size c \<noteq> 0 then min lim0 (c__batch_size c)
                                    else lim0)
                           else c__batch_size c)
                in (c, [SendMessage (GetMore (full_name (c__collection c)) lim i)]))
          else (c, []))"

text \<open>The body of the \<^verbatim>\<open>for\<close> loop of \<^verbatim>\<open>Cursor.loop\<close>, on \<^verbatim>\<open>self.__datastore\<close>.\<close>

definition sink_step :: "helpers \<Rightarrow> cursor \<Rightarrow> pyval list \<Rightarrow> pyval \<Rightarrow> pyval list" where
  "sink_step h c store r =
     (let r1 = fix_outgoing h r (c__collection c);
          r2 = (if truthy (c__processor c)
                then call_processor h (c__processor c) r1 (c__collection c)
                else r1)
      in if truthy (c__store c) \<and> truthy r2 then store @ [r2] else store)"

text \<open>\<^verbatim>\<open>Cursor.loop\<close>.\<close>

definition loop :: "helpers \<Rightarrow> cursor \<Rightarrow> cursor \<times> event list" where
  "loop h c =
     (case c__error c of
        Some e \<Rightarrow> (c, [CallbackError e])
      | None \<Rightarrow>
          (let c1 = (if length (c__data c) \<noteq> 0
                     then c\<lparr> c__datastore := foldl (sink_step h c) (c__datastore c) (c__data c),
                             c__data := [] \<rparr>
                     else c)
           in if \<not> c__killed c1 then refresh c1
              else (c1, [CallbackDocs (c__datastore c1)])))"

text \<open>\<^verbatim>\<open>Cursor.explain\<close>.\<close>

definition explain :: "helpers \<Rightarrow> cursor \<Rightarrow> cursor \<times> event list" where
  "explain h c =
     loop h (c\<lparr> c__explain := True,
                c__limit := (if c__limit c \<noteq> 0 then - \<bar>c__limit c\<bar> else c__limit c) \<rparr>)"

text \<open>
  What the connection passes to \<^verbatim>\<open>mod_callback\<close>: an exception object, a tuple of a
  connection id and the raw reply, or the raw reply alone.
\<close>

datatype response =
    Exc pyexc
  | Tup "int option" raw
  | Raw raw

text \<open>
  \<^verbatim>\<open>mod_callback\<close>, the closure \<^verbatim>\<open>__send_message\<close> registers, with \<^verbatim>\<open>callback\<close> bound to
  \<^verbatim>\<open>self.loop\<close>. The first component is the exception that leaves \<^verbatim>\<open>mod_callback\<close>, if one
  does; the cursor is then as the raise left it and \<^verbatim>\<open>callback()\<close> has not run.
\<close>

definition mod_callback :: "helpers \<Rightarrow> response \<Rightarrow> cursor \<Rightarrow> pyexc option \<times> cursor \<times> event list" where
  "mod_callback h resp c =
     (case resp of
        Exc e \<Rightarrow>
          (let (c', evs) = loop h (c\<lparr> c__error := Some e \<rparr>) in (None, c', evs))
      | _ \<Rightarrow>
          (let (connection_id, body) =
                 (case resp of Tup k b \<Rightarrow> (k, b) | Raw b \<Rightarrow> (None, b) | Exc e \<Rightarrow> (None, []));
               c1 = c\<lparr> c__connection_id := connection_id \<rparr>
           in case unpack_response h body (c__id c1) (c__as_class c1) (c__tz_aware c1) of
                Inl e \<Rightarrow>
                  (case e of
                     AutoReconnect m \<Rightarrow> (Some e, c1, [Disconnect])
                   | _ \<Rightarrow> (Some e, c1, []))
              | Inr r \<Rightarrow>
                  (let c2 = c1\<lparr> c__id := Some (cursor_id r) \<rparr> in
                   if \<not> c__tailable c2 \<and> starting_from r \<noteq> c__retrieved c2
                   then (Some AssertionError, c2, [])
                   else
                     (let c3 = c2\<lparr> c__retrieved := c__retrieved c2 + number_returned r,
                                    c__data := data r \<rparr>;
                          die_now = (c__id c3 = Some 0 \<or> length (c__data c3) = 0 \<or>
                                     (c__limit c3 \<noteq> 0 \<and> live_id c3 \<and>
                                      c__limit c3 \<le> c__retrieved c3));
                          (c4, evs1) = (if die_now then die c3 else (c3, []));
                          (c5, evs2) = loop h c4
                      in (None, c5, evs1 @ evs2)))))"

text \<open>
  The connection's side of \<^verbatim>\<open>_send_message_with_response(message, mod_callback)\<close>: it
  calls \<^verbatim>\<open>mod_callback\<close> once per message sent, with the next response. \<open>serve\<close> runs a
  cursor that has a request outstanding on the responses given, in order, until no
  request is outstanding, an exception leaves \<^verbatim>\<open>mod_callback\<close>, or the responses end.
\<close>

definition is_send :: "event \<Rightarrow> bool" where
  "is_send ev = (case ev of SendMessage m \<Rightarrow> True | _ \<Rightarrow> False)"

fun serve :: "helpers \<Rightarrow> response list \<Rightarrow> cursor \<Rightarrow> pyexc option \<times> cursor \<times> event list" where
  "serve h [] c = (None, c, [])"
| "serve h (r # rs) c =
     (case mod_callback h r c of
        (Some e, c', evs) \<Rightarrow> (Some e, c', evs)
      | (None, c', evs) \<Rightarrow>
          if list_ex is_send evs
          then (case serve h rs c' of (x, c'', evs') \<Rightarrow> (x, c'', evs @ evs'))
          else (None, c', evs))"

text \<open>A call of \<^verbatim>\<open>loop()\<close> by the application, followed by the responses.\<close>

definition drive :: "helpers \<Rightarrow> response list \<Rightarrow> cursor \<Rightarrow> pyexc option \<times> cursor \<times> event list" where
  "drive h rs c =
     (case loop h c of
        (c1, evs) \<Rightarrow>
          if list_ex is_send evs
          then (case serve h rs c1 of (x, c2, evs') \<Rightarrow> (x, c2, evs @ evs'))
          else (None, c1, evs))"


section \<open>Measures on a run\<close>

definition is_close :: "event \<Rightarrow> bool" where
  "is_close ev = (case ev of CloseCursor i k \<Rightarrow> True | _ \<Rightarrow> False)"

text \<open>The number of \<^verbatim>\<open>close_cursor\<close> calls among the events.\<close>

definition kills :: "event list \<Rightarrow> nat" where
  "kills evs = length (filter is_close evs)"

text \<open>The messages sent, in order.\<close>

fun sent :: "event list \<Rightarrow> message list" where
  "sent [] = []"
| "sent (SendMessage m # evs) = m # sent evs"
| "sent (ev # evs) = sent evs"

text \<open>
  How many documents a message asks for at most: the \<^verbatim>\<open>limit\<close> argument of
  \<^verbatim>\<open>message.query\<close> and of \<^verbatim>\<open>message.get_more\<close>, whose sign the server ignores for the
  count and whose value 0 leaves the count to the server.
\<close>

definition asked :: "message \<Rightarrow> int option" where
  "asked m =
     (case m of
        Query opts ns sk lim spec flds \<Rightarrow> (if lim = 0 then None else Some \<bar>lim\<bar>)
      | GetMore ns lim i \<Rightarrow> (if lim = 0 then None else Some \<bar>lim\<bar>))"

text \<open>
  What \<^verbatim>\<open>mod_callback\<close> gets from \<^verbatim>\<open>helpers._unpack_response\<close> for a response that is
  not an exception object: the exception raised or the decoded reply.
\<close>

definition decoded :: "helpers \<Rightarrow> response \<Rightarrow> cursor \<Rightarrow> (pyexc + reply) option" where
  "decoded h resp c =
     (case resp of
        Exc e \<Rightarrow> None
      | Tup k b \<Rightarrow> Some (unpack_response h b (c__id c) (c__as_class c) (c__tz_aware c))
      | Raw b \<Rightarrow> Some (unpack_response h b (c__id c) (c__as_class c) (c__tz_aware c)))"

text \<open>The connection id that comes with a response.\<close>

definition conn_of :: "response \<Rightarrow> int option" where
  "conn_of resp = (case resp of Tup k b \<Rightarrow> k | _ \<Rightarrow> None)"

text \<open>
  A response keeps to the message it answers when it is an exception, or fails to
  decode, or decodes to a reply that counts its own documents and carries no more of
  them than the message asked for. The cursor is the one the response is handed to.
\<close>

definition keeps_to :: "helpers \<Rightarrow> cursor \<Rightarrow> message \<Rightarrow> response \<Rightarrow> bool" where
  "keeps_to h c m resp =
     (case decoded h resp c of
        Some (Inr r) \<Rightarrow>
          number_returned r = int (length (data r)) \<and>
          (case asked m of None \<Rightarrow> True | Some a \<Rightarrow> int (length (data r)) \<le> a)
      | _ \<Rightarrow> True)"

text \<open>
  \<open>obedient h rs c m\<close>: along \<open>serve h rs c\<close>, started with the message \<open>m\<close> outstanding,
  every response keeps to the message it answers.
\<close>

fun obedient :: "helpers \<Rightarrow> response list \<Rightarrow> cursor \<Rightarrow> message \<Rightarrow> bool" where
  "obedient h [] c m = True"
| "obedient h (r # rs) c m =
     (keeps_to h c m r \<and>
      (case mod_callback h r c of
         (Some e, c', evs) \<Rightarrow> True
       | (None, c', evs) \<Rightarrow>
           (case sent evs of [] \<Rightarrow> True | m' # ms \<Rightarrow> obedient h rs c' m')))"

text \<open>The same for \<open>drive h rs c\<close>.\<close>

definition obedient_run :: "helpers \<Rightarrow> response list \<Rightarrow> cursor \<Rightarrow> bool" where
  "obedient_run h rs c =
     (case loop h c of
        (c1, evs) \<Rightarrow> (case sent evs of [] \<Rightarrow> True | m # ms \<Rightarrow> obedient h rs c1 m))"

text \<open>The state in which \<open>serve\<close> finds a cursor with a nonzero limit that has been
  answered within its requests so far, \<open>m\<close> being the request outstanding.\<close>

definition within_limit :: "cursor \<Rightarrow> message \<Rightarrow> bool" where
  "within_limit c m =
     (c__limit c \<noteq> 0 \<and> 0 \<le> c__batch_size c \<and> c__error c = None \<and> c__data c = [] \<and>
      0 \<le> c__retrieved c \<and> int (length (c__datastore c)) \<le> c__retrieved c \<and>
      (case asked m of None \<Rightarrow> False | Some a \<Rightarrow> c__retrieved c + a \<le> \<bar>c__limit c\<bar>))"

text \<open>
  The helpers \<open>h\<close> with a decoder that reports the offset \<open>s\<close> in place of the
  \<^verbatim>\<open>starting_from\<close> of every reply it decodes.
\<close>

definition with_starting_from :: "int \<Rightarrow> helpers \<Rightarrow> helpers" where
  "with_starting_from s h =
     h\<lparr> unpack_response :=
          (\<lambda>b i cls tz. case unpack_response h b i cls tz of
                            Inl e \<Rightarrow> Inl e
                          | Inr r \<Rightarrow> Inr (r\<lparr> starting_from := s \<rparr>)) \<rparr>"

section \<open>Concrete inputs\<close>

definition doc :: "int \<Rightarrow> pyval" where
  "doc k = PDict [(''n'', PInt k)]"

text \<open>A decoder that knows six raw replies by name.\<close>

definition example_unpack :: "raw \<Rightarrow> int option \<Rightarrow> pyval \<Rightarrow> bool \<Rightarrow> pyexc + reply" where
  "example_unpack body i cls tz =
     (if body = ''first5''
      then Inr \<lparr> cursor_id = 123, starting_from = 0, number_returned = 5,
                 data = [doc 0, doc 1, doc 2, doc 3, doc 4] \<rparr>
      else if body = ''next2''
      then Inr \<lparr> cursor_id = 123, starting_from = 5, number_returned = 2,
                 data = [doc 5, doc 6] \<rparr>
      else if body = ''next5''
      then Inr \<lparr> cursor_id = 123, starting_from = 5, number_returned = 5,
                 data = [doc 5, doc 6, doc 7, doc 8, doc 9] \<rparr>
      else if body = ''skewed''
      then Inr \<lparr> cursor_id = 123, starting_from = 3, number_returned = 2,
                 data = [doc 5, doc 6] \<rparr>
      else if body = ''last0''
      then Inr \<lparr> cursor_id = 0, starting_from = 5, number_returned = 0, data = [] \<rparr>
      else if body = ''stale''
      then Inl (AutoReconnect ''master has changed'')
      else Inl (OperationFailure ''database error''))"

text \<open>
  Stand-ins for \<^verbatim>\<open>helpers._index_list\<close> and \<^verbatim>\<open>helpers._index_document\<close> of
  \<^verbatim>\<open>apymongo.helpers\<close>, after the docstrings of \<^verbatim>\<open>sort\<close> and \<^verbatim>\<open>hint\<close>: an index is a
  list of (key, direction) pairs with string keys, a pair being a two-element \<open>PList\<close>.
  A single key with a direction, or a single string key, becomes a one-pair list; the
  list of pairs becomes an ordered document; anything else raises.
\<close>

fun example_son :: "pyval list \<Rightarrow> (string \<times> pyval) list \<Rightarrow> pyexc + pyval" where
  "example_son [] acc = Inr (PDict acc)"
| "example_son (PList [PStr key, value] # ps) acc = example_son ps (dict_set acc key value)"
| "example_son (p # ps) acc =
     Inl (TypeError ''first item in each key pair must be a string'')"

definition example_index_list :: "pyval \<Rightarrow> pyval \<Rightarrow> pyexc + pyval" where
  "example_index_list key_or_list direction =
     (if direction \<noteq> PNone then Inr (PList [PList [key_or_list, direction]])
      else (case key_or_list of
              PStr s \<Rightarrow> Inr (PList [PList [key_or_list, PInt 1]])
            | PList ps \<Rightarrow> Inr key_or_list
            | _ \<Rightarrow> Inl (TypeError
                ''if no direction is specified, key_or_list must be an instance of list'')))"

definition example_index_document :: "pyval \<Rightarrow> pyexc + pyval" where
  "example_index_document pairs =
     (case pairs of
        PList ps \<Rightarrow>
          (if ps = [] then Inl (ValueError ''key_or_list must not be the empty list'')
           else example_son ps [])
      | _ \<Rightarrow> Inl (TypeError ''must use a list of (key, direction) pairs''))"

definition example_helpers :: helpers where
  "example_helpers =
     \<lparr> fields_list_to_dict = (\<lambda>v. Inr v),
       index_list = example_index_list,
       index_document = example_index_document,
       unpack_response = example_unpack,
       fix_outgoing = (\<lambda>r coll. r),
       call_processor = (\<lambda>p r coll. r),
       Code = (\<lambda>v. case v of PStr s \<Rightarrow> Inr (PCode s)
                     | _ \<Rightarrow> Inl (TypeError ''code must be an instance of basestring'')) \<rparr>"

definition example_collection :: collection where
  "example_collection =
     \<lparr> full_name = ''db.things'', name = ''things'', document_class = PObj 0,
       tz_aware = False, slave_okay = False \<rparr>"

text \<open>\<^verbatim>\<open>Cursor(collection, callback=cb, limit=7)\<close>, as \<open>Cursor_init\<close> returns it.\<close>

definition example_args :: init_args where
  "example_args = default_args\<lparr> a_callback := PObj 1, a_limit := PInt 7 \<rparr>"

definition example_cursor :: cursor where
  "example_cursor =
     \<lparr> c__id = None, c__error = None, c__collection = example_collection,
       c__callback = PObj 1, c__processor = PNone, c__spec = [], c__fields = PNone,
       c__skip = 0, c__limit = 7, c__batch_size = 0, c__store = PBool True,
       c__empty = False, c__timeout = True, c__tailable = False, c__snapshot = False,
       c__ordering = PNone, c__max_scan = PNone, c__explain = False, c__hint = PNone,
       c__as_class = PObj 0, c__tz_aware = False, c__must_use_master = False,
       c__is_command = False, c__data = [], c__datastore = [], c__connection_id = None,
       c__retrieved = 0, c__killed = False, c__kwargs = [] \<rparr>"

text \<open>The same cursor after a first reply of five documents with the id 123.\<close>

definition started_cursor :: cursor where
  "started_cursor =
     example_cursor\<lparr> c__id := Some 123, c__retrieved := 5,
                     c__datastore := [doc 0, doc 1, doc 2, doc 3, doc 4] \<rparr>"


text \<open>The started cursor with an error stored by an earlier run.\<close>

definition failed_cursor :: cursor where
  "failed_cursor = started_cursor\<lparr> c__error := Some (ConnectionFailure ''connection closed'') \<rparr>"

section \<open>Basic facts\<close>

lemma example_cursor_init:
  "Cursor_init example_helpers example_collection example_args = Inr example_cursor"
  by (simp add: Cursor_init_def example_args_def default_args_def example_cursor_def
      example_collection_def)

lemma example_chainable: "check_okay_to_chain example_cursor = None"
  by (simp add: check_okay_to_chain_def example_cursor_def)

lemma started_not_chainable:
  "check_okay_to_chain started_cursor =
     Some (InvalidOperation ''cannot set options after executing query'')"
  by (simp add: check_okay_to_chain_def started_cursor_def example_cursor_def)

section \<open>Clone\<close>

text \<open>
  C1. The claim is that \<^verbatim>\<open>clone()\<close> returns a fresh unqueried cursor with the
  configuration of the original. In the source the positional arguments of the call in
  \<^verbatim>\<open>clone\<close> are one parameter pair off the signature of \<^verbatim>\<open>__init__\<close>: the integer
  \<^verbatim>\<open>self.__skip\<close> is bound to \<^verbatim>\<open>spec\<close>, which is neither \<^verbatim>\<open>None\<close> nor a \<^verbatim>\<open>dict\<close>. So for
  every cursor and whatever the helpers do, \<^verbatim>\<open>clone()\<close> raises \<^verbatim>\<open>TypeError\<close> and returns
  no cursor.
\<close>

theorem clone_raises:
  "clone h c = Inl (TypeError ''spec must be an instance of dict'')"
  by (simp add: clone_def Cursor_init_def default_args_def)

theorem clone_raises_witness:
  "clone example_helpers example_cursor = Inl (TypeError ''spec must be an instance of dict'')"
  using clone_raises [of example_helpers example_cursor] by simp

section \<open>Batch size\<close>

text \<open>
  C3. On a cursor that may still be chained, \<^verbatim>\<open>batch_size\<close> stores 2 for the argument 1
  and stores the argument itself when it is 0 or greater than 1; an argument that is not
  an \<^verbatim>\<open>int\<close> raises \<^verbatim>\<open>TypeError\<close> and a negative one raises \<^verbatim>\<open>ValueError\<close>, with nothing
  assigned. The change of 1 into 2 is made when the value is stored: a get-more of a
  cursor without limit sends the stored batch size as it is.
\<close>

theorem batch_size_normalises:
  "(check_okay_to_chain c = None \<and> as_int v = Some 1 \<longrightarrow>
      batch_size c v = Inr (c\<lparr> c__batch_size := 2 \<rparr>)) \<and>
   (check_okay_to_chain c = None \<and> as_int w = Some b \<and> (b = 0 \<or> 1 < b) \<longrightarrow>
      batch_size c w = Inr (c\<lparr> c__batch_size := b \<rparr>)) \<and>
   (as_int x = None \<longrightarrow> batch_size c x = Inl (TypeError ''batch_size must be an int'')) \<and>
   (as_int y = Some n \<and> n < 0 \<longrightarrow>
      batch_size c y = Inl (ValueError ''batch_size must be >= 0'')) \<and>
   (c__id d = Some i \<and> i \<noteq> 0 \<and> c__limit d = 0 \<longrightarrow>
      refresh d = (d, [SendMessage (GetMore (full_name (c__collection d)) (c__batch_size d) i)]))"
  by (auto simp: batch_size_def refresh_def)

theorem batch_size_normalises_witness:
  "batch_size example_cursor (PInt 1) = Inr (example_cursor\<lparr> c__batch_size := 2 \<rparr>) \<and>
   batch_size example_cursor (PInt 5) = Inr (example_cursor\<lparr> c__batch_size := 5 \<rparr>) \<and>
   batch_size example_cursor (PStr ''5'') = Inl (TypeError ''batch_size must be an int'') \<and>
   batch_size example_cursor (PInt (- 1)) = Inl (ValueError ''batch_size must be >= 0'') \<and>
   refresh (example_cursor\<lparr> c__id := Some 123, c__limit := 0, c__batch_size := 1 \<rparr>) =
     (example_cursor\<lparr> c__id := Some 123, c__limit := 0, c__batch_size := 1 \<rparr>,
      [SendMessage (GetMore ''db.things'' 1 123)])"
  using batch_size_normalises [of example_cursor "PInt 1" "PInt 5" 5 "PStr ''5''" "PInt (- 1)" "- 1"
      "example_cursor\<lparr> c__id := Some 123, c__limit := 0, c__batch_size := 1 \<rparr>" 123]
    example_chainable
  by (simp add: example_cursor_def example_collection_def)

section \<open>The size of a get-more\<close>

text \<open>
  C9. With a live (nonzero) id, \<^verbatim>\<open>_refresh\<close> sends exactly one get-more for that id. Its
  count is \<^verbatim>\<open>limit - retrieved\<close>, bounded above by the batch size, when limit and batch
  size are both nonzero; \<^verbatim>\<open>limit - retrieved\<close> when the limit is nonzero and the batch
  size is 0; and the batch size when the limit is 0.
\<close>

theorem getmore_count:
  "c__id c = Some i \<and> i \<noteq> 0 \<longrightarrow>
     (\<exists>n. refresh c = (c, [SendMessage (GetMore (full_name (c__collection c)) n i)]) \<and>
          (c__limit c \<noteq> 0 \<and> c__batch_size c \<noteq> 0 \<longrightarrow>
             n = min (c__limit c - c__retrieved c) (c__batch_size c)) \<and>
          (c__limit c \<noteq> 0 \<and> c__batch_size c = 0 \<longrightarrow> n = c__limit c - c__retrieved c) \<and>
          (c__limit c = 0 \<longrightarrow> n = c__batch_size c))"
  by (simp add: refresh_def Let_def)

theorem getmore_count_witness:
  "refresh started_cursor = (started_cursor, [SendMessage (GetMore ''db.things'' 2 123)]) \<and>
   refresh (started_cursor\<lparr> c__batch_size := 1 \<rparr>) =
     (started_cursor\<lparr> c__batch_size := 1 \<rparr>, [SendMessage (GetMore ''db.things'' 1 123)]) \<and>
   refresh (started_cursor\<lparr> c__limit := 0, c__batch_size := 4 \<rparr>) =
     (started_cursor\<lparr> c__limit := 0, c__batch_size := 4 \<rparr>,
      [SendMessage (GetMore ''db.things'' 4 123)])"
  using getmore_count [of started_cursor 123]
    getmore_count [of "started_cursor\<lparr> c__batch_size := 1 \<rparr>" 123]
    getmore_count [of "started_cursor\<lparr> c__limit := 0, c__batch_size := 4 \<rparr>" 123]
  by (simp add: started_cursor_def example_cursor_def example_collection_def)


section \<open>The response handler, case by case\<close>

lemma mod_callback_Exc:
  "mod_callback h (Exc e) c = (None, c\<lparr> c__error := Some e \<rparr>, [CallbackError e])"
  by (simp add: mod_callback_def loop_def)

lemma mod_callback_raise:
  assumes "decoded h resp c = Some (Inl e)"
  shows "mod_callback h resp c =
           (Some e, c\<lparr> c__connection_id := conn_of resp \<rparr>,
            (case e of AutoReconnect m \<Rightarrow> [Disconnect] | _ \<Rightarrow> []))"
  using assms
  by (cases resp; cases e) (simp_all add: mod_callback_def decoded_def conn_of_def)

lemma mod_callback_assert:
  assumes "decoded h resp c = Some (Inr r)"
    and "\<not> c__tailable c" and "starting_from r \<noteq> c__retrieved c"
  shows "mod_callback h resp c =
           (Some AssertionError,
            c\<lparr> c__connection_id := conn_of resp, c__id := Some (cursor_id r) \<rparr>, [])"
  using assms
  by (cases resp) (simp_all add: mod_callback_def decoded_def conn_of_def)

lemma mod_callback_apply:
  assumes "decoded h resp c = Some (Inr r)"
    and "c__tailable c \<or> starting_from r = c__retrieved c"
  shows "mod_callback h resp c =
           (let c3 = c\<lparr> c__connection_id := conn_of resp, c__id := Some (cursor_id r),
                         c__retrieved := c__retrieved c + number_returned r,
                         c__data := data r \<rparr>;
                die_now = (cursor_id r = 0 \<or> data r = [] \<or>
                           (c__limit c \<noteq> 0 \<and> cursor_id r \<noteq> 0 \<and>
                            c__limit c \<le> c__retrieved c + number_returned r));
                c4e = (if die_now then die c3 else (c3, []));
                c5e = loop h (fst c4e)
            in (None, fst c5e, snd c4e @ snd c5e))"
  using assms
  by (cases resp)
     (auto simp: mod_callback_def decoded_def conn_of_def Let_def live_id_def
           split: prod.splits)

lemma query_spec_frame:
  "query_spec c = (sp, c') \<Longrightarrow> c' = c\<lparr> c__spec := c__spec c' \<rparr>"
  by (auto simp: query_spec_def Let_def split: if_splits)

lemma refresh_frame:
  "refresh c = (c', evs) \<Longrightarrow> c' = c\<lparr> c__spec := c__spec c' \<rparr>"
  by (auto simp: refresh_def Let_def split: option.splits if_splits prod.splits
           dest: query_spec_frame)

lemma refresh_kills: "kills (snd (refresh c)) = 0"
  by (simp add: refresh_def Let_def kills_def is_close_def split: option.splits prod.splits)

lemma refresh_fields:
  "c__killed (fst (refresh c)) = c__killed c"
  "c__id (fst (refresh c)) = c__id c"
  "c__retrieved (fst (refresh c)) = c__retrieved c"
  "c__limit (fst (refresh c)) = c__limit c"
  "c__batch_size (fst (refresh c)) = c__batch_size c"
  "c__error (fst (refresh c)) = c__error c"
  "c__connection_id (fst (refresh c)) = c__connection_id c"
  "c__tailable (fst (refresh c)) = c__tailable c"
  "c__datastore (fst (refresh c)) = c__datastore c"
  "c__data (fst (refresh c)) = c__data c"
  by (simp_all add: refresh_def query_spec_def Let_def split: option.splits prod.splits)

lemma loop_fields:
  "c__killed (fst (loop h c)) = c__killed c"
  "c__id (fst (loop h c)) = c__id c"
  "c__retrieved (fst (loop h c)) = c__retrieved c"
  "c__limit (fst (loop h c)) = c__limit c"
  "c__batch_size (fst (loop h c)) = c__batch_size c"
  "c__error (fst (loop h c)) = c__error c"
  "c__connection_id (fst (loop h c)) = c__connection_id c"
  "c__tailable (fst (loop h c)) = c__tailable c"
  by (simp_all add: loop_def refresh_fields Let_def split: option.splits)

lemma loop_live_id: "live_id (fst (loop h c)) = live_id c"
  by (simp add: live_id_def loop_fields)

lemma loop_kills: "kills (snd (loop h c)) = 0"
  using refresh_kills
  by (simp add: loop_def Let_def kills_def is_close_def split: option.splits)

lemma loop_send_alive:
  "list_ex is_send (snd (loop h c)) \<Longrightarrow> \<not> c__killed c \<and> c__error c = None"
  by (auto simp: loop_def Let_def is_send_def split: option.splits if_splits)

lemma die_kills:
  "kills (snd (die c)) = (if live_id c \<and> \<not> c__killed c then 1 else 0)"
  by (simp add: die_def kills_def is_close_def live_id_def split: option.splits)

lemma die_state: "fst (die c) = c\<lparr> c__killed := True \<rparr>"
  by (simp add: die_def)

lemma die_send: "\<not> list_ex is_send (snd (die c))"
  by (simp add: die_def is_send_def split: option.splits)

lemma kills_append: "kills (xs @ ys) = kills xs + kills ys"
  by (simp add: kills_def)

lemma decoded_None: "decoded h resp c = None \<Longrightarrow> \<exists>e. resp = Exc e"
  by (cases resp) (simp_all add: decoded_def)

lemma live_id_killed [simp]: "live_id (c\<lparr> c__killed := b \<rparr>) = live_id c"
  by (simp add: live_id_def)

lemma kills_Nil [simp]: "kills [] = 0"
  by (simp add: kills_def)

lemma mod_callback_kills:
  assumes "\<not> c__killed c" and "mod_callback h resp c = (x, c', evs)"
  shows "kills evs = (if c__killed c' \<and> live_id c' then 1 else 0) \<and>
         (list_ex is_send evs \<longrightarrow> \<not> c__killed c')"
proof (cases "decoded h resp c")
  case None
  then obtain e where "resp = Exc e" using decoded_None by blast
  with assms show ?thesis
    by (auto simp: mod_callback_Exc kills_def is_close_def is_send_def)
next
  case (Some d)
  show ?thesis
  proof (cases d)
    case (Inl e)
    with Some assms show ?thesis
      by (cases e) (auto simp: mod_callback_raise kills_def is_close_def is_send_def)
  next
    case (Inr r)
    show ?thesis
    proof (cases "c__tailable c \<or> starting_from r = c__retrieved c")
      case False
      with Some Inr assms show ?thesis
        by (auto simp: mod_callback_assert kills_def)
    next
      case True
      let ?c3 = "c\<lparr> c__connection_id := conn_of resp, c__id := Some (cursor_id r),
                     c__retrieved := c__retrieved c + number_returned r,
                     c__data := data r \<rparr>"
      let ?dn = "cursor_id r = 0 \<or> data r = [] \<or>
                 (c__limit c \<noteq> 0 \<and> cursor_id r \<noteq> 0 \<and>
                  c__limit c \<le> c__retrieved c + number_returned r)"
      let ?c4e = "if ?dn then die ?c3 else (?c3, [])"
      from mod_callback_apply [OF _ True, of h resp] Some Inr assms(2)
      have c': "c' = fst (loop h (fst ?c4e))"
        and evs: "evs = snd ?c4e @ snd (loop h (fst ?c4e))"
        by (simp_all add: Let_def)
      show ?thesis
      proof (cases ?dn)
        case dn: True
        have k: "c__killed c'" using c' dn by (simp add: loop_fields die_state)
        have l: "live_id c' = live_id ?c3" using c' dn by (simp add: loop_live_id die_state)
        have "kills evs = (if live_id ?c3 then 1 else 0)"
          using evs dn assms(1) by (simp add: kills_append loop_kills die_kills)
        moreover have "\<not> list_ex is_send evs"
        proof
          assume "list_ex is_send evs"
          then have "list_ex is_send (snd (loop h (fst (die ?c3))))"
            using evs dn die_send [of ?c3] by (auto simp: list_ex_iff)
          then have "\<not> c__killed (fst (die ?c3))" using loop_send_alive by blast
          then show False by (simp add: die_state)
        qed
        ultimately show ?thesis using k l by simp
      next
        case ndn: False
        have k: "\<not> c__killed c'" using c' ndn assms(1) by (simp add: loop_fields)
        have "kills evs = 0" using evs ndn by (simp add: loop_kills)
        then show ?thesis using k by simp
      qed
    qed
  qed
qed

lemma serve_kills:
  "\<not> c__killed c \<Longrightarrow> serve h rs c = (x, c', evs) \<Longrightarrow>
     kills evs = (if c__killed c' \<and> live_id c' then 1 else 0)"
proof (induction rs arbitrary: c x c' evs)
  case Nil
  then show ?case by (auto simp: kills_def)
next
  case (Cons r rs)
  obtain x1 c1 evs1 where m: "mod_callback h r c = (x1, c1, evs1)"
    by (cases "mod_callback h r c") auto
  note k = mod_callback_kills [OF Cons.prems(1) m]
  show ?case
  proof (cases "x1 = None \<and> list_ex is_send evs1")
    case False
    with Cons.prems(2) m have "c' = c1" "evs = evs1"
      by (auto split: option.splits)
    with k show ?thesis by simp
  next
    case True
    obtain x2 c2 evs2 where s: "serve h rs c1 = (x2, c2, evs2)"
      by (cases "serve h rs c1") auto
    from True k have nk: "\<not> c__killed c1" by simp
    from Cons.IH [OF nk s] have k2: "kills evs2 = (if c__killed c2 \<and> live_id c2 then 1 else 0)" .
    from True Cons.prems(2) m s have "c' = c2" "evs = evs1 @ evs2" by auto
    moreover from k nk have "kills evs1 = 0" by simp
    ultimately show ?thesis using k2 by (simp add: kills_append)
  qed
qed

lemma drive_kills:
  assumes "\<not> c__killed c" and "drive h rs c = (x, c', evs)"
  shows "kills evs = (if c__killed c' \<and> live_id c' then 1 else 0)"
proof -
  obtain c1 evs1 where l: "loop h c = (c1, evs1)" by (cases "loop h c") auto
  have nk: "\<not> c__killed c1" using l assms(1) loop_fields(1) [of h c] by simp
  have k1: "kills evs1 = 0" using l loop_kills [of h c] by simp
  show ?thesis
  proof (cases "list_ex is_send evs1")
    case False
    with assms(2) l have "c' = c1" "evs = evs1" by (auto simp: drive_def)
    with nk k1 show ?thesis by simp
  next
    case True
    obtain x2 c2 evs2 where s: "serve h rs c1 = (x2, c2, evs2)"
      by (cases "serve h rs c1") auto
    from True assms(2) l s have "c' = c2" "evs = evs1 @ evs2" by (auto simp: drive_def)
    with serve_kills [OF nk s] k1 show ?thesis by (simp add: kills_append)
  qed
qed

lemma del_kills: "kills (snd (del c)) = (if live_id c \<and> \<not> c__killed c then 1 else 0)"
  by (simp add: del_def die_kills)

lemma sink_step_with_starting_from:
  "sink_step (with_starting_from s h) c = sink_step h c"
  by (intro ext) (simp add: sink_step_def with_starting_from_def Let_def)

lemma loop_with_starting_from: "loop (with_starting_from s h) c = loop h c"
  unfolding loop_def sink_step_with_starting_from by (rule refl)

lemma example_decoded_next2:
  "decoded example_helpers (Raw ''next2'') started_cursor =
     Some (Inr \<lparr> cursor_id = 123, starting_from = 5, number_returned = 2,
                  data = [doc 5, doc 6] \<rparr>)"
  by (simp add: decoded_def example_helpers_def example_unpack_def)

lemma example_decoded_skewed:
  "decoded example_helpers (Raw ''skewed'') started_cursor =
     Some (Inr \<lparr> cursor_id = 123, starting_from = 3, number_returned = 2,
                  data = [doc 5, doc 6] \<rparr>)"
  by (simp add: decoded_def example_helpers_def example_unpack_def)

lemma example_decoded_stale:
  "decoded example_helpers (Raw ''stale'') started_cursor =
     Some (Inl (AutoReconnect ''master has changed''))"
  by (simp add: decoded_def example_helpers_def example_unpack_def)

text \<open>
  C4. A reply that decodes and passes the offset check is applied to a cursor that is
  not yet killed (the only state in which a request is sent). The cursor is killed
  afterwards if and only if the new id is 0, or the reply has no documents, or the limit
  is nonzero, the new id is nonzero and the updated count of retrieved documents has
  reached the limit; otherwise it stays live.
\<close>

theorem die_now_iff:
  "decoded h resp c = Some (Inr r) \<and> \<not> c__killed c \<and>
   (c__tailable c \<or> starting_from r = c__retrieved c) \<longrightarrow>
     fst (mod_callback h resp c) = None \<and>
     c__id (fst (snd (mod_callback h resp c))) = Some (cursor_id r) \<and>
     c__retrieved (fst (snd (mod_callback h resp c))) = c__retrieved c + number_returned r \<and>
     c__killed (fst (snd (mod_callback h resp c))) =
       (cursor_id r = 0 \<or> data r = [] \<or>
        (c__limit c \<noteq> 0 \<and> cursor_id r \<noteq> 0 \<and>
         c__limit c \<le> c__retrieved c + number_returned r))"
proof (intro impI, elim conjE)
  assume d: "decoded h resp c = Some (Inr r)" and nk: "\<not> c__killed c"
    and ok: "c__tailable c \<or> starting_from r = c__retrieved c"
  show "fst (mod_callback h resp c) = None \<and>
     c__id (fst (snd (mod_callback h resp c))) = Some (cursor_id r) \<and>
     c__retrieved (fst (snd (mod_callback h resp c))) = c__retrieved c + number_returned r \<and>
     c__killed (fst (snd (mod_callback h resp c))) =
       (cursor_id r = 0 \<or> data r = [] \<or>
        (c__limit c \<noteq> 0 \<and> cursor_id r \<noteq> 0 \<and>
         c__limit c \<le> c__retrieved c + number_returned r))"
    using nk by (auto simp: mod_callback_apply [OF d ok] Let_def loop_fields die_state)
qed

theorem die_now_iff_witness:
  "c__killed (fst (snd (mod_callback example_helpers (Raw ''next2'') started_cursor))) \<and>
   \<not> c__killed (fst (snd (mod_callback example_helpers (Raw ''next2'')
                              (started_cursor\<lparr> c__limit := 0 \<rparr>))))"
  using die_now_iff [of example_helpers "Raw ''next2''" started_cursor
      "\<lparr> cursor_id = 123, starting_from = 5, number_returned = 2, data = [doc 5, doc 6] \<rparr>"]
    die_now_iff [of example_helpers "Raw ''next2''" "started_cursor\<lparr> c__limit := 0 \<rparr>"
      "\<lparr> cursor_id = 123, starting_from = 5, number_returned = 2, data = [doc 5, doc 6] \<rparr>"]
  by (simp add: decoded_def example_helpers_def example_unpack_def started_cursor_def
      example_cursor_def)

lemma serve_stops_on_raise:
  "fst (mod_callback h r c) \<noteq> None \<Longrightarrow> serve h (r # rs) c = mod_callback h r c"
  by (cases "mod_callback h r c") (auto split: option.splits)

lemma serve_stops_without_send:
  "\<not> list_ex is_send (snd (snd (mod_callback h r c))) \<Longrightarrow>
     serve h (r # rs) c = mod_callback h r c"
  by (cases "mod_callback h r c") (auto split: option.splits)

text \<open>
  C5. \<^verbatim>\<open>__die\<close> calls \<^verbatim>\<open>close_cursor\<close> exactly when the id is set, nonzero and the cursor
  is not yet killed, and never when the id is unset or 0; it leaves the cursor killed, so
  a second \<^verbatim>\<open>__die\<close> or a \<^verbatim>\<open>__del__\<close> after it calls nothing. Over a whole run from a
  cursor that is not killed, followed by the finalizer, \<^verbatim>\<open>close_cursor\<close> is called once
  if the id the run ends with is nonzero and not at all if it is 0 or unset, and a
  repeated finalizer adds nothing.
\<close>

theorem kill_cursor_once:
  "(c__id c = Some i \<and> i \<noteq> 0 \<and> \<not> c__killed c \<longrightarrow>
      snd (die c) = [CloseCursor i (c__connection_id c)]) \<and>
   (c__id c = None \<or> c__id c = Some 0 \<or> c__killed c \<longrightarrow> snd (die c) = []) \<and>
   c__killed (fst (die c)) \<and>
   die (fst (die c)) = (fst (die c), []) \<and>
   del (fst (die c)) = (fst (die c), []) \<and>
   (\<not> c__killed d \<longrightarrow>
      kills (snd (snd (drive h rs d)) @ snd (del (fst (snd (drive h rs d))))) =
        (if live_id (fst (snd (drive h rs d))) then 1 else 0) \<and>
      snd (del (fst (del (fst (snd (drive h rs d)))))) = [])"
proof -
  have a: "c__id c = Some i \<and> i \<noteq> 0 \<and> \<not> c__killed c \<longrightarrow>
      snd (die c) = [CloseCursor i (c__connection_id c)]"
    by (simp add: die_def split: option.splits)
  have b: "c__id c = None \<or> c__id c = Some 0 \<or> c__killed c \<longrightarrow> snd (die c) = []"
    by (auto simp: die_def split: option.splits)
  have c: "c__killed (fst (die c))" by (simp add: die_def)
  have d: "die (fst (die c)) = (fst (die c), [])"
    by (simp add: die_def split: option.splits)
  have e: "del (fst (die c)) = (fst (die c), [])"
    by (simp add: del_def die_def)
  have f: "\<not> c__killed d \<longrightarrow>
      kills (snd (snd (drive h rs d)) @ snd (del (fst (snd (drive h rs d))))) =
        (if live_id (fst (snd (drive h rs d))) then 1 else 0) \<and>
      snd (del (fst (del (fst (snd (drive h rs d)))))) = []"
  proof
    assume nk: "\<not> c__killed d"
    obtain x c' evs where dr: "drive h rs d = (x, c', evs)"
      by (cases "drive h rs d") auto
    have "kills (evs @ snd (del c')) = (if live_id c' then 1 else 0)"
      using drive_kills [OF nk dr] by (simp add: kills_append del_kills)
    moreover have "snd (del (fst (del c'))) = []"
      by (auto simp: del_def die_def)
    ultimately show "kills (snd (snd (drive h rs d)) @ snd (del (fst (snd (drive h rs d))))) =
        (if live_id (fst (snd (drive h rs d))) then 1 else 0) \<and>
      snd (del (fst (del (fst (snd (drive h rs d)))))) = []"
      using dr by simp
  qed
  from a b c d e f show ?thesis by blast
qed

text \<open>
  C6. On a cursor that is not tailable, a decoded reply whose \<^verbatim>\<open>starting_from\<close> differs
  from \<^verbatim>\<open>retrieved\<close> makes \<^verbatim>\<open>mod_callback\<close> raise \<^verbatim>\<open>AssertionError\<close>: nothing is sent,
  no callback runs, and the responses that follow are not consumed; with equal values no
  exception is raised. On a tailable cursor the check is skipped: the outcome is the
  same whatever offset the decoder reports, and no reply that decodes raises.
\<close>

theorem starting_from_checked:
  "(decoded h resp c = Some (Inr r) \<and> \<not> c__tailable c \<and> starting_from r \<noteq> c__retrieved c \<longrightarrow>
      mod_callback h resp c =
        (Some AssertionError,
         c\<lparr> c__connection_id := conn_of resp, c__id := Some (cursor_id r) \<rparr>, []) \<and>
      serve h (resp # rs) c = mod_callback h resp c) \<and>
   (decoded h resp c = Some (Inr r) \<and> \<not> c__tailable c \<and> starting_from r = c__retrieved c \<longrightarrow>
      fst (mod_callback h resp c) = None) \<and>
   (c__tailable d \<longrightarrow>
      mod_callback (with_starting_from s h) resp' d = mod_callback h resp' d) \<and>
   (c__tailable d \<and> decoded h resp' d = Some (Inr r') \<longrightarrow>
      fst (mod_callback h resp' d) = None)"
proof -
  have a: "decoded h resp c = Some (Inr r) \<and> \<not> c__tailable c \<and>
           starting_from r \<noteq> c__retrieved c \<longrightarrow>
      mod_callback h resp c =
        (Some AssertionError,
         c\<lparr> c__connection_id := conn_of resp, c__id := Some (cursor_id r) \<rparr>, []) \<and>
      serve h (resp # rs) c = mod_callback h resp c"
    using serve_stops_on_raise [of h resp c rs] by (auto simp: mod_callback_assert)
  have b: "decoded h resp c = Some (Inr r) \<and> \<not> c__tailable c \<and>
           starting_from r = c__retrieved c \<longrightarrow> fst (mod_callback h resp c) = None"
    by (auto simp: mod_callback_apply Let_def)
  have c: "c__tailable d \<longrightarrow>
      mod_callback (with_starting_from s h) resp' d = mod_callback h resp' d"
  proof
    assume t: "c__tailable d"
    have u: "unpack_response (with_starting_from s h) =
             (\<lambda>b i cls tz. case unpack_response h b i cls tz of
                            Inl e \<Rightarrow> Inl e
                          | Inr r \<Rightarrow> Inr (r\<lparr> starting_from := s \<rparr>))"
      by (simp add: with_starting_from_def)
    show "mod_callback (with_starting_from s h) resp' d = mod_callback h resp' d"
      using t unfolding mod_callback_def loop_with_starting_from u
      by (cases resp') (auto simp: Let_def split: sum.splits prod.splits)
  qed
  have e: "c__tailable d \<and> decoded h resp' d = Some (Inr r') \<longrightarrow>
      fst (mod_callback h resp' d) = None"
    by (auto simp: mod_callback_apply Let_def)
  from a b c e show ?thesis by blast
qed

lemmas example_defs =
  example_helpers_def example_unpack_def example_cursor_def example_collection_def
  started_cursor_def doc_def

lemmas run_defs =
  drive_def loop_def refresh_def query_spec_def query_options_def add_modifiers_def
  dict_has_def mod_callback_def die_def live_id_def sink_step_def is_send_def Let_def

lemma example_run:
  "drive example_helpers [Raw ''first5'', Raw ''next2''] example_cursor =
     (None,
      example_cursor\<lparr> c__id := Some 123, c__retrieved := 7, c__killed := True,
                      c__datastore := [doc 0, doc 1, doc 2, doc 3, doc 4, doc 5, doc 6] \<rparr>,
      [SendMessage (Query 0 ''db.things'' 0 7 [(''$query'', PDict [])] PNone),
       SendMessage (GetMore ''db.things'' 2 123),
       CloseCursor 123 None,
       CallbackDocs [doc 0, doc 1, doc 2, doc 3, doc 4, doc 5, doc 6]])"
  by (simp add: run_defs example_defs)

lemma example_overrun:
  "drive example_helpers [Raw ''first5'', Raw ''next5''] example_cursor =
     (None,
      example_cursor\<lparr> c__id := Some 123, c__retrieved := 10, c__killed := True,
                      c__datastore := [doc 0, doc 1, doc 2, doc 3, doc 4,
                                       doc 5, doc 6, doc 7, doc 8, doc 9] \<rparr>,
      [SendMessage (Query 0 ''db.things'' 0 7 [(''$query'', PDict [])] PNone),
       SendMessage (GetMore ''db.things'' 2 123),
       CloseCursor 123 None,
       CallbackDocs [doc 0, doc 1, doc 2, doc 3, doc 4, doc 5, doc 6, doc 7, doc 8, doc 9]])"
  by (simp add: run_defs example_defs)

lemma example_exhausted:
  "drive example_helpers [Raw ''first5'', Raw ''last0''] (example_cursor\<lparr> c__limit := 0 \<rparr>) =
     (None,
      example_cursor\<lparr> c__limit := 0, c__id := Some 0, c__retrieved := 5, c__killed := True,
                      c__datastore := [doc 0, doc 1, doc 2, doc 3, doc 4] \<rparr>,
      [SendMessage (Query 0 ''db.things'' 0 0 [(''$query'', PDict [])] PNone),
       SendMessage (GetMore ''db.things'' 0 123),
       CallbackDocs [doc 0, doc 1, doc 2, doc 3, doc 4]])"
  by (simp add: run_defs example_defs)

theorem kill_cursor_once_witness:
  "snd (die started_cursor) = [CloseCursor 123 None] \<and>
   snd (die (fst (die started_cursor))) = [] \<and>
   kills (snd (snd (drive example_helpers [Raw ''first5'', Raw ''next2''] example_cursor)) @
          snd (del (fst (snd (drive example_helpers [Raw ''first5'', Raw ''next2'']
                                 example_cursor))))) = 1"
  using kill_cursor_once [of started_cursor 123 example_cursor example_helpers
      "[Raw ''first5'', Raw ''next2'']"]
  by (simp add: example_run live_id_def) (simp add: example_defs)

theorem starting_from_checked_witness:
  "mod_callback example_helpers (Raw ''skewed'') started_cursor =
     (Some AssertionError, started_cursor, []) \<and>
   serve example_helpers [Raw ''skewed'', Raw ''next2''] started_cursor =
     (Some AssertionError, started_cursor, []) \<and>
   fst (mod_callback example_helpers (Raw ''next2'') started_cursor) = None \<and>
   mod_callback (with_starting_from 99 example_helpers) (Raw ''skewed'')
       (started_cursor\<lparr> c__tailable := True \<rparr>) =
     mod_callback example_helpers (Raw ''skewed'') (started_cursor\<lparr> c__tailable := True \<rparr>) \<and>
   fst (mod_callback example_helpers (Raw ''skewed'')
          (started_cursor\<lparr> c__tailable := True \<rparr>)) = None"
  using starting_from_checked [of example_helpers "Raw ''skewed''" started_cursor
      "\<lparr> cursor_id = 123, starting_from = 3, number_returned = 2, data = [doc 5, doc 6] \<rparr>"
      "[Raw ''next2'']" "started_cursor\<lparr> c__tailable := True \<rparr>" 99 "Raw ''skewed''"
      "\<lparr> cursor_id = 123, starting_from = 3, number_returned = 2, data = [doc 5, doc 6] \<rparr>"]
    starting_from_checked [of example_helpers "Raw ''next2''" started_cursor
      "\<lparr> cursor_id = 123, starting_from = 5, number_returned = 2, data = [doc 5, doc 6] \<rparr>"
      "[]" "started_cursor\<lparr> c__tailable := True \<rparr>" 99 "Raw ''skewed''"
      "\<lparr> cursor_id = 123, starting_from = 3, number_returned = 2, data = [doc 5, doc 6] \<rparr>"]
  by (simp add: decoded_def conn_of_def example_defs)

text \<open>
  C7, as stated, fails: when decoding the response raises \<^verbatim>\<open>AutoReconnect\<close>, the error
  leaves \<^verbatim>\<open>mod_callback\<close> as an exception after \<^verbatim>\<open>disconnect()\<close>; it is not stored in
  \<^verbatim>\<open>self.__error\<close> and no callback is called.
\<close>

theorem reconnect_error_raised:
  "fst (mod_callback example_helpers (Raw ''stale'') started_cursor) =
     Some (AutoReconnect ''master has changed'') \<and>
   c__error (fst (snd (mod_callback example_helpers (Raw ''stale'') started_cursor))) = None \<and>
   snd (snd (mod_callback example_helpers (Raw ''stale'') started_cursor)) = [Disconnect]"
  by (simp add: mod_callback_raise [OF example_decoded_stale])
     (simp add: started_cursor_def example_cursor_def)

text \<open>
  C7, amended. An exception object handed to \<^verbatim>\<open>mod_callback\<close> as the response (of any
  class, reconnect-classified or not) is stored as the cursor's error and delivered to
  the callback by the drive step that follows, and by every later one; the cursor calls
  no \<^verbatim>\<open>disconnect()\<close> and sends nothing again. When decoding a raw response raises
  \<^verbatim>\<open>AutoReconnect\<close>, \<^verbatim>\<open>disconnect()\<close> is called and the error is raised out of
  \<^verbatim>\<open>mod_callback\<close>: the error is not stored, no callback runs, and nothing is sent again.
\<close>

theorem transport_failure:
  "mod_callback h (Exc e) c = (None, c\<lparr> c__error := Some e \<rparr>, [CallbackError e]) \<and>
   serve h (Exc e # rs) c = (None, c\<lparr> c__error := Some e \<rparr>, [CallbackError e]) \<and>
   drive h rs (c\<lparr> c__error := Some e \<rparr>) = (None, c\<lparr> c__error := Some e \<rparr>, [CallbackError e]) \<and>
   (decoded h resp d = Some (Inl (AutoReconnect m)) \<longrightarrow>
      mod_callback h resp d =
        (Some (AutoReconnect m), d\<lparr> c__connection_id := conn_of resp \<rparr>, [Disconnect]) \<and>
      serve h (resp # rs) d = mod_callback h resp d)"
proof -
  have a: "mod_callback h (Exc e) c = (None, c\<lparr> c__error := Some e \<rparr>, [CallbackError e])"
    by (rule mod_callback_Exc)
  have b: "serve h (Exc e # rs) c = (None, c\<lparr> c__error := Some e \<rparr>, [CallbackError e])"
    by (simp add: mod_callback_Exc is_send_def)
  have c: "drive h rs (c\<lparr> c__error := Some e \<rparr>) =
             (None, c\<lparr> c__error := Some e \<rparr>, [CallbackError e])"
    by (simp add: drive_def loop_def is_send_def)
  have d: "decoded h resp d = Some (Inl (AutoReconnect m)) \<longrightarrow>
      mod_callback h resp d =
        (Some (AutoReconnect m), d\<lparr> c__connection_id := conn_of resp \<rparr>, [Disconnect]) \<and>
      serve h (resp # rs) d = mod_callback h resp d"
    using serve_stops_on_raise [of h resp d rs] by (auto simp: mod_callback_raise)
  from a b c d show ?thesis by blast
qed

theorem transport_failure_witness:
  "mod_callback example_helpers (Exc (AutoReconnect ''connection closed'')) started_cursor =
     (None, started_cursor\<lparr> c__error := Some (AutoReconnect ''connection closed'') \<rparr>,
      [CallbackError (AutoReconnect ''connection closed'')]) \<and>
   mod_callback example_helpers (Raw ''stale'') started_cursor =
     (Some (AutoReconnect ''master has changed''), started_cursor, [Disconnect]) \<and>
   serve example_helpers [Raw ''stale'', Raw ''next2''] started_cursor =
     (Some (AutoReconnect ''master has changed''), started_cursor, [Disconnect])"
  using transport_failure [of example_helpers "AutoReconnect ''connection closed''"
      started_cursor "[Raw ''next2'']" "Raw ''stale''" started_cursor "''master has changed''"]
    example_decoded_stale
  by (simp add: conn_of_def) (simp add: example_defs)


section \<open>The result sink\<close>

lemma sink_step_append: "sink_step h c acc d = acc @ sink_step h c [] d"
  by (simp add: sink_step_def Let_def)

lemma foldl_sink_append:
  "foldl (sink_step h c) acc ds = acc @ foldl (sink_step h c) [] ds"
proof (induction ds arbitrary: acc)
  case Nil
  show ?case by simp
next
  case (Cons d ds)
  have "foldl (sink_step h c) acc (d # ds) = foldl (sink_step h c) (sink_step h c acc d) ds"
    by simp
  also have "\<dots> = sink_step h c acc d @ foldl (sink_step h c) [] ds"
    by (rule Cons.IH)
  also have "\<dots> = acc @ (sink_step h c [] d @ foldl (sink_step h c) [] ds)"
    using sink_step_append [of h c acc d] by simp
  also have "\<dots> = acc @ foldl (sink_step h c) (sink_step h c [] d) ds"
    using Cons.IH [of "sink_step h c [] d"] by simp
  finally show ?case by simp
qed

lemma sink_step_same:
  "c__processor c' = c__processor c \<Longrightarrow> c__store c' = c__store c \<Longrightarrow>
   c__collection c' = c__collection c \<Longrightarrow> sink_step h c' = sink_step h c"
  by (intro ext) (simp add: sink_step_def Let_def)

lemma loop_datastore:
  "c__error c = None \<Longrightarrow>
     c__datastore (fst (loop h c)) = c__datastore c @ foldl (sink_step h c) [] (c__data c)"
  using foldl_sink_append [of h c "c__datastore c" "c__data c"]
  by (simp add: loop_def Let_def refresh_fields)

lemma serve_single: "fst (snd (serve h [r] c)) = fst (snd (mod_callback h r c))"
  by (cases "mod_callback h r c") (auto split: option.splits)

lemma drive_state:
  "fst (snd (drive h rs c)) =
     (if list_ex is_send (snd (loop h c)) then fst (snd (serve h rs (fst (loop h c))))
      else fst (loop h c))"
  by (cases "loop h c"; cases "serve h rs (fst (loop h c))") (auto simp: drive_def)


lemma mod_callback_datastore:
  assumes "decoded h resp c = Some (Inr r)"
    and "c__tailable c \<or> starting_from r = c__retrieved c"
    and "c__error c = None"
  shows "c__datastore (fst (snd (mod_callback h resp c))) =
           c__datastore c @ foldl (sink_step h c) [] (data r)"
proof -
  let ?c3 = "c\<lparr> c__connection_id := conn_of resp, c__id := Some (cursor_id r),
                 c__retrieved := c__retrieved c + number_returned r,
                 c__data := data r \<rparr>"
  have s3: "sink_step h ?c3 = sink_step h c" by (rule sink_step_same) simp_all
  have s4: "sink_step h (?c3\<lparr> c__killed := True \<rparr>) = sink_step h c"
    by (rule sink_step_same) simp_all
  show ?thesis
    using assms(3)
    by (simp add: mod_callback_apply [OF assms(1,2)] Let_def loop_datastore die_state s3 s4)
qed

lemma query_spec_fields:
  "c__id (snd (query_spec c)) = c__id c"
  "c__error (snd (query_spec c)) = c__error c"
  "c__tailable (snd (query_spec c)) = c__tailable c"
  "c__retrieved (snd (query_spec c)) = c__retrieved c"
  "c__processor (snd (query_spec c)) = c__processor c"
  "c__store (snd (query_spec c)) = c__store c"
  "c__collection (snd (query_spec c)) = c__collection c"
  "c__datastore (snd (query_spec c)) = c__datastore c"
  "c__as_class (snd (query_spec c)) = c__as_class c"
  "c__tz_aware (snd (query_spec c)) = c__tz_aware c"
  "c__limit (snd (query_spec c)) = c__limit c"
  "c__batch_size (snd (query_spec c)) = c__batch_size c"
  "c__data (snd (query_spec c)) = c__data c"
  "c__killed (snd (query_spec c)) = c__killed c"
  by (simp_all add: query_spec_def Let_def)

lemma loop_unqueried:
  assumes "c__error c = None" and "c__data c = []" and "\<not> c__killed c" and "c__id c = None"
  shows "loop h c =
           (snd (query_spec c),
            [SendMessage (Query (query_options c) (full_name (c__collection c))
                                (c__skip c) (c__limit c) (fst (query_spec c)) (c__fields c))])"
  using assms by (simp add: loop_def refresh_def split: prod.splits)

lemma decoded_query_spec: "decoded h resp (snd (query_spec c)) = decoded h resp c"
  by (cases resp) (simp_all add: decoded_def query_spec_fields)

section \<open>Rewind\<close>

text \<open>
  C10. \<^verbatim>\<open>rewind()\<close> resets the buffered batch, the id, the connection id, the count of
  retrieved documents and the killed flag, and nothing else: putting those five back
  gives the original cursor, so the accumulated documents and a stored error stay. A
  drive after \<^verbatim>\<open>rewind()\<close> on a cursor with a stored error delivers that error again and
  sends nothing; on a cursor without one, the documents of the first reply are appended
  to the documents accumulated before the rewind.
\<close>

theorem rewind_keeps_sink_and_error:
  "c__data (rewind c) = [] \<and> c__id (rewind c) = None \<and> c__connection_id (rewind c) = None \<and>
   c__retrieved (rewind c) = 0 \<and> \<not> c__killed (rewind c) \<and>
   (rewind c)\<lparr> c__data := c__data c, c__id := c__id c,
               c__connection_id := c__connection_id c, c__retrieved := c__retrieved c,
               c__killed := c__killed c \<rparr> = c \<and>
   c__datastore (rewind c) = c__datastore c \<and> c__error (rewind c) = c__error c \<and>
   (c__error c = Some e \<longrightarrow> drive h rs (rewind c) = (None, rewind c, [CallbackError e])) \<and>
   (c__error d = None \<and> decoded h resp (rewind d) = Some (Inr r) \<and>
    (c__tailable d \<or> starting_from r = 0) \<longrightarrow>
      c__datastore (fst (snd (drive h [resp] (rewind d)))) =
        c__datastore d @ foldl (sink_step h d) [] (data r))"
proof -
  have a: "c__data (rewind c) = [] \<and> c__id (rewind c) = None \<and>
           c__connection_id (rewind c) = None \<and> c__retrieved (rewind c) = 0 \<and>
           \<not> c__killed (rewind c) \<and> c__datastore (rewind c) = c__datastore c \<and>
           c__error (rewind c) = c__error c"
    by (simp add: rewind_def)
  have b: "(rewind c)\<lparr> c__data := c__data c, c__id := c__id c,
               c__connection_id := c__connection_id c, c__retrieved := c__retrieved c,
               c__killed := c__killed c \<rparr> = c"
    by (simp add: rewind_def)
  have e: "c__error c = Some e \<longrightarrow> drive h rs (rewind c) = (None, rewind c, [CallbackError e])"
    by (simp add: drive_def loop_def is_send_def rewind_def)
  have f: "c__error d = None \<and> decoded h resp (rewind d) = Some (Inr r) \<and>
    (c__tailable d \<or> starting_from r = 0) \<longrightarrow>
      c__datastore (fst (snd (drive h [resp] (rewind d)))) =
        c__datastore d @ foldl (sink_step h d) [] (data r)"
  proof (intro impI, elim conjE)
    assume ne: "c__error d = None" and dec: "decoded h resp (rewind d) = Some (Inr r)"
      and ok: "c__tailable d \<or> starting_from r = 0"
    let ?c1 = "snd (query_spec (rewind d))"
    have l: "loop h (rewind d) =
        (?c1, [SendMessage (Query (query_options (rewind d))
                 (full_name (c__collection (rewind d))) (c__skip (rewind d))
                 (c__limit (rewind d)) (fst (query_spec (rewind d))) (c__fields (rewind d)))])"
      by (rule loop_unqueried) (simp_all add: rewind_def ne)
    have "fst (snd (drive h [resp] (rewind d))) = fst (snd (serve h [resp] ?c1))"
      unfolding drive_state l by (simp add: is_send_def del: serve.simps)
    then have st: "fst (snd (drive h [resp] (rewind d))) = fst (snd (mod_callback h resp ?c1))"
      by (simp only: serve_single)
    have dec1: "decoded h resp ?c1 = Some (Inr r)"
      using dec by (simp only: decoded_query_spec)
    have ok1: "c__tailable ?c1 \<or> starting_from r = c__retrieved ?c1"
      using ok by (simp add: query_spec_fields rewind_def)
    have ne1: "c__error ?c1 = None" using ne by (simp add: query_spec_fields rewind_def)
    have s: "sink_step h ?c1 = sink_step h d"
      by (rule sink_step_same) (simp_all add: query_spec_fields rewind_def)
    have ds: "c__datastore ?c1 = c__datastore d"
      by (simp add: query_spec_fields rewind_def)
    show "c__datastore (fst (snd (drive h [resp] (rewind d)))) =
        c__datastore d @ foldl (sink_step h d) [] (data r)"
      by (simp only: st mod_callback_datastore [OF dec1 ok1 ne1] s ds)
  qed
  from a b e f show ?thesis by blast
qed

theorem rewind_keeps_sink_and_error_witness:
  "drive example_helpers [Raw ''first5''] (rewind failed_cursor) =
     (None, rewind failed_cursor, [CallbackError (ConnectionFailure ''connection closed'')]) \<and>
   c__datastore (fst (snd (drive example_helpers [Raw ''first5''] (rewind started_cursor)))) =
     [doc 0, doc 1, doc 2, doc 3, doc 4, doc 0, doc 1, doc 2, doc 3, doc 4]"
  using rewind_keeps_sink_and_error [of failed_cursor "ConnectionFailure ''connection closed''"
      example_helpers "[Raw ''first5'']" started_cursor "Raw ''first5''"
      "\<lparr> cursor_id = 123, starting_from = 0, number_returned = 5,
         data = [doc 0, doc 1, doc 2, doc 3, doc 4] \<rparr>"]
  by (simp add: failed_cursor_def decoded_def rewind_def sink_step_def example_defs)

section \<open>The chain guard\<close>

text \<open>
  C2. Every configuration method validates its argument where it has a check of its
  own (\<^verbatim>\<open>limit\<close>, \<^verbatim>\<open>skip\<close>, \<^verbatim>\<open>batch_size\<close>, before the guard) and calls
  \<^verbatim>\<open>__check_okay_to_chain\<close>. For a well-formed call, once \<^verbatim>\<open>retrieved\<close> is nonzero or
  the id is set, each of the seven methods raises \<^verbatim>\<open>InvalidOperation\<close> and assigns
  nothing: \<^verbatim>\<open>max_scan\<close>, \<^verbatim>\<open>sort\<close>, \<^verbatim>\<open>hint\<close> and \<^verbatim>\<open>where\<close> whatever their argument,
  \<^verbatim>\<open>limit\<close>, \<^verbatim>\<open>skip\<close> and \<^verbatim>\<open>batch_size\<close> for every argument that passes their type
  and range check. While \<^verbatim>\<open>retrieved\<close> is 0 and the id is unset, the same call succeeds
  and returns the cursor with the one setting changed; for \<^verbatim>\<open>sort\<close>, \<^verbatim>\<open>hint\<close> and
  \<^verbatim>\<open>where\<close> the call is well-formed when the index helpers and the \<^verbatim>\<open>Code\<close>
  constructor accept the argument.
\<close>

theorem chain_guard:
  "(c__retrieved c \<noteq> 0 \<or> c__id c \<noteq> None \<longrightarrow>
      max_scan c v = Inl (InvalidOperation ''cannot set options after executing query'') \<and>
      sort_cursor h c k dir = Inl (InvalidOperation ''cannot set options after executing query'') \<and>
      hint h c ix = Inl (InvalidOperation ''cannot set options after executing query'') \<and>
      where_cursor h c code = Inl (InvalidOperation ''cannot set options after executing query'') \<and>
      (as_int a \<noteq> None \<longrightarrow>
         limit c a = Inl (InvalidOperation ''cannot set options after executing query'')) \<and>
      (as_int_or_long s \<noteq> None \<longrightarrow>
         skip c s = Inl (InvalidOperation ''cannot set options after executing query'')) \<and>
      (as_int b = Some n \<and> 0 \<le> n \<longrightarrow>
         batch_size c b = Inl (InvalidOperation ''cannot set options after executing query''))) \<and>
   (c__retrieved d = 0 \<and> c__id d = None \<longrightarrow>
      (as_int a' = Some n1 \<longrightarrow> limit d a' = Inr (d\<lparr> c__empty := False, c__limit := n1 \<rparr>)) \<and>
      (as_int_or_long s' = Some n2 \<longrightarrow> skip d s' = Inr (d\<lparr> c__skip := n2 \<rparr>)) \<and>
      (as_int b' = Some n3 \<and> 0 \<le> n3 \<longrightarrow>
         batch_size d b' = Inr (d\<lparr> c__batch_size := (if n3 = 1 then 2 else n3) \<rparr>)) \<and>
      max_scan d v' = Inr (d\<lparr> c__max_scan := v' \<rparr>) \<and>
      (index_list h k' dir' = Inr ks \<and> index_document h ks = Inr od \<longrightarrow>
         sort_cursor h d k' dir' = Inr (d\<lparr> c__ordering := od \<rparr>)) \<and>
      hint h d PNone = Inr (d\<lparr> c__hint := PNone \<rparr>) \<and>
      (ix' \<noteq> PNone \<and> index_document h ix' = Inr hv \<longrightarrow>
         hint h d ix' = Inr (d\<lparr> c__hint := hv \<rparr>)) \<and>
      where_cursor h d (PCode js) =
        Inr (d\<lparr> c__spec := dict_set (c__spec d) ''$where'' (PCode js) \<rparr>) \<and>
      (Code h (PStr js') = Inr cd \<longrightarrow>
         where_cursor h d (PStr js') = Inr (d\<lparr> c__spec := dict_set (c__spec d) ''$where'' cd \<rparr>)))"
proof -
  have g1: "c__retrieved c \<noteq> 0 \<or> c__id c \<noteq> None \<Longrightarrow>
      check_okay_to_chain c = Some (InvalidOperation ''cannot set options after executing query'')"
    by (auto simp: check_okay_to_chain_def)
  have g2: "c__retrieved d = 0 \<and> c__id d = None \<Longrightarrow> check_okay_to_chain d = None"
    by (simp add: check_okay_to_chain_def)
  have p1: "c__retrieved c \<noteq> 0 \<or> c__id c \<noteq> None \<longrightarrow>
      max_scan c v = Inl (InvalidOperation ''cannot set options after executing query'') \<and>
      sort_cursor h c k dir = Inl (InvalidOperation ''cannot set options after executing query'') \<and>
      hint h c ix = Inl (InvalidOperation ''cannot set options after executing query'') \<and>
      where_cursor h c code = Inl (InvalidOperation ''cannot set options after executing query'') \<and>
      (as_int a \<noteq> None \<longrightarrow>
         limit c a = Inl (InvalidOperation ''cannot set options after executing query'')) \<and>
      (as_int_or_long s \<noteq> None \<longrightarrow>
         skip c s = Inl (InvalidOperation ''cannot set options after executing query'')) \<and>
      (as_int b = Some n \<and> 0 \<le> n \<longrightarrow>
         batch_size c b = Inl (InvalidOperation ''cannot set options after executing query''))"
  proof
    assume "c__retrieved c \<noteq> 0 \<or> c__id c \<noteq> None"
    note g = g1 [OF this]
    show "max_scan c v = Inl (InvalidOperation ''cannot set options after executing query'') \<and>
      sort_cursor h c k dir = Inl (InvalidOperation ''cannot set options after executing query'') \<and>
      hint h c ix = Inl (InvalidOperation ''cannot set options after executing query'') \<and>
      where_cursor h c code = Inl (InvalidOperation ''cannot set options after executing query'') \<and>
      (as_int a \<noteq> None \<longrightarrow>
         limit c a = Inl (InvalidOperation ''cannot set options after executing query'')) \<and>
      (as_int_or_long s \<noteq> None \<longrightarrow>
         skip c s = Inl (InvalidOperation ''cannot set options after executing query'')) \<and>
      (as_int b = Some n \<and> 0 \<le> n \<longrightarrow>
         batch_size c b = Inl (InvalidOperation ''cannot set options after executing query''))"
      by (auto simp: g max_scan_def sort_cursor_def hint_def where_cursor_def limit_def
          skip_def batch_size_def)
  qed
  have p2: "c__retrieved d = 0 \<and> c__id d = None \<longrightarrow>
      (as_int a' = Some n1 \<longrightarrow> limit d a' = Inr (d\<lparr> c__empty := False, c__limit := n1 \<rparr>)) \<and>
      (as_int_or_long s' = Some n2 \<longrightarrow> skip d s' = Inr (d\<lparr> c__skip := n2 \<rparr>)) \<and>
      (as_int b' = Some n3 \<and> 0 \<le> n3 \<longrightarrow>
         batch_size d b' = Inr (d\<lparr> c__batch_size := (if n3 = 1 then 2 else n3) \<rparr>)) \<and>
      max_scan d v' = Inr (d\<lparr> c__max_scan := v' \<rparr>) \<and>
      (index_list h k' dir' = Inr ks \<and> index_document h ks = Inr od \<longrightarrow>
         sort_cursor h d k' dir' = Inr (d\<lparr> c__ordering := od \<rparr>)) \<and>
      hint h d PNone = Inr (d\<lparr> c__hint := PNone \<rparr>) \<and>
      (ix' \<noteq> PNone \<and> index_document h ix' = Inr hv \<longrightarrow>
         hint h d ix' = Inr (d\<lparr> c__hint := hv \<rparr>)) \<and>
      where_cursor h d (PCode js) =
        Inr (d\<lparr> c__spec := dict_set (c__spec d) ''$where'' (PCode js) \<rparr>) \<and>
      (Code h (PStr js') = Inr cd \<longrightarrow>
         where_cursor h d (PStr js') = Inr (d\<lparr> c__spec := dict_set (c__spec d) ''$where'' cd \<rparr>))"
  proof
    assume "c__retrieved d = 0 \<and> c__id d = None"
    note g = g2 [OF this]
    show "(as_int a' = Some n1 \<longrightarrow> limit d a' = Inr (d\<lparr> c__empty := False, c__limit := n1 \<rparr>)) \<and>
      (as_int_or_long s' = Some n2 \<longrightarrow> skip d s' = Inr (d\<lparr> c__skip := n2 \<rparr>)) \<and>
      (as_int b' = Some n3 \<and> 0 \<le> n3 \<longrightarrow>
         batch_size d b' = Inr (d\<lparr> c__batch_size := (if n3 = 1 then 2 else n3) \<rparr>)) \<and>
      max_scan d v' = Inr (d\<lparr> c__max_scan := v' \<rparr>) \<and>
      (index_list h k' dir' = Inr ks \<and> index_document h ks = Inr od \<longrightarrow>
         sort_cursor h d k' dir' = Inr (d\<lparr> c__ordering := od \<rparr>)) \<and>
      hint h d PNone = Inr (d\<lparr> c__hint := PNone \<rparr>) \<and>
      (ix' \<noteq> PNone \<and> index_document h ix' = Inr hv \<longrightarrow>
         hint h d ix' = Inr (d\<lparr> c__hint := hv \<rparr>)) \<and>
      where_cursor h d (PCode js) =
        Inr (d\<lparr> c__spec := dict_set (c__spec d) ''$where'' (PCode js) \<rparr>) \<and>
      (Code h (PStr js') = Inr cd \<longrightarrow>
         where_cursor h d (PStr js') = Inr (d\<lparr> c__spec := dict_set (c__spec d) ''$where'' cd \<rparr>))"
      by (auto simp: g max_scan_def sort_cursor_def hint_def where_cursor_def limit_def
          skip_def batch_size_def)
  qed
  from p1 p2 show ?thesis by blast
qed

theorem chain_guard_witness:
  "limit started_cursor (PInt 3) =
     Inl (InvalidOperation ''cannot set options after executing query'') \<and>
   skip started_cursor (PLong 3) =
     Inl (InvalidOperation ''cannot set options after executing query'') \<and>
   batch_size started_cursor (PInt 3) =
     Inl (InvalidOperation ''cannot set options after executing query'') \<and>
   max_scan started_cursor (PInt 3) =
     Inl (InvalidOperation ''cannot set options after executing query'') \<and>
   sort_cursor example_helpers started_cursor (PStr ''n'') (PInt 1) =
     Inl (InvalidOperation ''cannot set options after executing query'') \<and>
   hint example_helpers started_cursor (PList [PList [PStr ''n'', PInt 1]]) =
     Inl (InvalidOperation ''cannot set options after executing query'') \<and>
   where_cursor example_helpers started_cursor (PStr ''this.n > 1'') =
     Inl (InvalidOperation ''cannot set options after executing query'') \<and>
   limit example_cursor (PInt 3) = Inr (example_cursor\<lparr> c__empty := False, c__limit := 3 \<rparr>) \<and>
   skip example_cursor (PLong 3) = Inr (example_cursor\<lparr> c__skip := 3 \<rparr>) \<and>
   batch_size example_cursor (PInt 3) = Inr (example_cursor\<lparr> c__batch_size := 3 \<rparr>) \<and>
   max_scan example_cursor (PInt 3) = Inr (example_cursor\<lparr> c__max_scan := PInt 3 \<rparr>) \<and>
   sort_cursor example_helpers example_cursor (PStr ''n'') (PInt 1) =
     Inr (example_cursor\<lparr> c__ordering := PDict [(''n'', PInt 1)] \<rparr>) \<and>
   hint example_helpers example_cursor (PList [PList [PStr ''n'', PInt 1]]) =
     Inr (example_cursor\<lparr> c__hint := PDict [(''n'', PInt 1)] \<rparr>) \<and>
   where_cursor example_helpers example_cursor (PStr ''this.n > 1'') =
     Inr (example_cursor\<lparr> c__spec := [(''$where'', PCode ''this.n > 1'')] \<rparr>)"
  using chain_guard [of started_cursor "PInt 3" example_helpers "PStr ''n''" "PInt 1"
      "PList [PList [PStr ''n'', PInt 1]]" "PStr ''this.n > 1''" "PInt 3" "PLong 3" "PInt 3" 3
      example_cursor "PInt 3" 3 "PLong 3" 3 "PInt 3" 3 "PInt 3" "PStr ''n''" "PInt 1"
      "PList [PList [PStr ''n'', PInt 1]]" "PDict [(''n'', PInt 1)]"
      "PList [PList [PStr ''n'', PInt 1]]" "PDict [(''n'', PInt 1)]"
      "''x''" "''this.n > 1''" "PCode ''this.n > 1''"]
  by (simp add: example_helpers_def example_index_list_def example_index_document_def)
     (simp add: started_cursor_def example_cursor_def)


section \<open>The limit\<close>

lemma length_sink_step: "length (sink_step h c acc d) \<le> Suc (length acc)"
  by (simp add: sink_step_def Let_def)

lemma length_foldl_sink: "length (foldl (sink_step h c) [] ds) \<le> length ds"
proof (induction ds rule: rev_induct)
  case Nil
  show ?case by simp
next
  case (snoc d ds)
  have "length (foldl (sink_step h c) [] (ds @ [d])) \<le> Suc (length (foldl (sink_step h c) [] ds))"
    by (simp add: length_sink_step)
  with snoc show ?case by simp
qed

lemma sent_append: "sent (xs @ ys) = sent xs @ sent ys"
  by (induction xs rule: sent.induct) simp_all

lemma sent_nonempty: "list_ex is_send evs = (sent evs \<noteq> [])"
  by (induction evs rule: sent.induct) (simp_all add: is_send_def)

lemma sent_die: "sent (snd (die c)) = []"
  by (simp add: die_def split: option.splits)

lemma loop_data:
  "c__error c = None \<Longrightarrow> c__data (fst (loop h c)) = []"
  by (simp add: loop_def Let_def refresh_fields)

lemma loop_sent_getmore:
  assumes "c__error c = None" and "c__id c = Some i" and "sent (snd (loop h c)) = m # ms"
  shows "\<not> c__killed c \<and> i \<noteq> 0 \<and>
         m = GetMore (full_name (c__collection c))
               (if c__limit c \<noteq> 0
                then (if c__batch_size c \<noteq> 0
                      then min (c__limit c - c__retrieved c) (c__batch_size c)
                      else c__limit c - c__retrieved c)
                else c__batch_size c) i"
  using assms
  by (auto simp: loop_def refresh_def Let_def split: if_splits)

lemma within_limit_bounded:
  "within_limit c m \<Longrightarrow> int (length (c__datastore c)) \<le> \<bar>c__limit c\<bar>"
  by (auto simp: within_limit_def asked_def split: option.splits message.splits if_splits)

lemma mod_callback_within:
  assumes w: "within_limit c m" and k: "keeps_to h c m resp"
    and mc: "mod_callback h resp c = (x, c', evs)"
  shows "int (length (c__datastore c')) \<le> \<bar>c__limit c'\<bar> \<and>
         (\<forall>m' ms. sent evs = m' # ms \<longrightarrow> within_limit c' m')"
proof (cases "decoded h resp c")
  case None
  then obtain e where "resp = Exc e" using decoded_None by blast
  with mc within_limit_bounded [OF w] show ?thesis
    by (auto simp: mod_callback_Exc)
next
  case (Some dd)
  show ?thesis
  proof (cases dd)
    case (Inl e)
    with Some mc within_limit_bounded [OF w] show ?thesis
      by (cases e) (auto simp: mod_callback_raise)
  next
    case (Inr r)
    show ?thesis
    proof (cases "c__tailable c \<or> starting_from r = c__retrieved c")
      case False
      with Some Inr mc within_limit_bounded [OF w] show ?thesis
        by (auto simp: mod_callback_assert)
    next
      case True
      define c3 where "c3 = c\<lparr> c__connection_id := conn_of resp, c__id := Some (cursor_id r),
                     c__retrieved := c__retrieved c + number_returned r,
                     c__data := data r \<rparr>"
      define dn where "dn = (cursor_id r = 0 \<or> data r = [] \<or>
                 (c__limit c \<noteq> 0 \<and> cursor_id r \<noteq> 0 \<and>
                  c__limit c \<le> c__retrieved c + number_returned r))"
      define c4 where "c4 = (if dn then c3\<lparr> c__killed := True \<rparr> else c3)"
      define ev4 where "ev4 = (if dn then snd (die c3) else [])"
      have "mod_callback h resp c =
              (None, fst (loop h (fst (if dn then die c3 else (c3, [])))),
               snd (if dn then die c3 else (c3, [])) @
               snd (loop h (fst (if dn then die c3 else (c3, [])))))"
        using mod_callback_apply [OF _ True, of h resp] Some Inr
        unfolding Let_def c3_def [symmetric] dn_def [symmetric] by blast
      with mc have "c' = fst (loop h (fst (if dn then die c3 else (c3, []))))"
        and "evs = snd (if dn then die c3 else (c3, [])) @
                   snd (loop h (fst (if dn then die c3 else (c3, []))))"
        by simp_all
      then have c': "c' = fst (loop h c4)" and evs: "evs = ev4 @ snd (loop h c4)"
        by (cases dn; simp add: c4_def ev4_def die_state)+
      obtain a where a: "asked m = Some a" and ra: "c__retrieved c + a \<le> \<bar>c__limit c\<bar>"
        using w by (auto simp: within_limit_def split: option.splits)
      from w have lim: "c__limit c \<noteq> 0" and bs: "0 \<le> c__batch_size c"
        and err: "c__error c = None" and r0: "0 \<le> c__retrieved c"
        and ds: "int (length (c__datastore c)) \<le> c__retrieved c"
        by (simp_all add: within_limit_def)
      from k Some Inr a have nr: "number_returned r = int (length (data r))"
        and na: "int (length (data r)) \<le> a"
        by (simp_all add: keeps_to_def)
      have f4: "c__error c4 = None" "c__data c4 = data r" "c__datastore c4 = c__datastore c"
        "c__retrieved c4 = c__retrieved c + number_returned r" "c__limit c4 = c__limit c"
        "c__batch_size c4 = c__batch_size c" "c__id c4 = Some (cursor_id r)"
        "c__killed c4 = (dn \<or> c__killed c)"
        using err by (simp_all add: c4_def c3_def)
      have f': "c__error c' = None" "c__retrieved c' = c__retrieved c + number_returned r"
        "c__limit c' = c__limit c" "c__batch_size c' = c__batch_size c" "c__data c' = []"
        by (simp_all add: c' loop_fields loop_data f4)
      have "length (c__datastore c') \<le> length (c__datastore c) + length (data r)"
        using length_foldl_sink [of h c4 "data r"]
        by (simp add: c' loop_datastore f4)
      then have ds': "int (length (c__datastore c')) \<le> c__retrieved c'"
        using ds nr by (simp add: f')
      have r': "0 \<le> c__retrieved c'" "c__retrieved c' \<le> \<bar>c__limit c'\<bar>"
        using r0 nr na ra by (simp_all add: f')
      have next_ok: "within_limit c' m'" if s: "sent evs = m' # ms" for m' ms
      proof -
        have "sent evs = sent (snd (loop h c4))"
          by (simp add: evs ev4_def sent_append sent_die)
        with s have "sent (snd (loop h c4)) = m' # ms" by simp
        from loop_sent_getmore [OF f4(1) f4(7) this]
        have nk: "\<not> c__killed c4" and id0: "cursor_id r \<noteq> 0"
          and m': "m' = GetMore (full_name (c__collection c4))
               (if c__limit c4 \<noteq> 0
                then (if c__batch_size c4 \<noteq> 0
                      then min (c__limit c4 - c__retrieved c4) (c__batch_size c4)
                      else c__limit c4 - c__retrieved c4)
                else c__batch_size c4) (cursor_id r)"
          by simp_all
        from nk have "\<not> dn" by (simp add: f4)
        with id0 lim have lt: "c__retrieved c + number_returned r < c__limit c"
          by (auto simp: dn_def)
        have "\<exists>a'. asked m' = Some a' \<and> c__retrieved c' + a' \<le> \<bar>c__limit c'\<bar>"
          using lt lim bs r0 nr by (auto simp: m' f4 f' asked_def min_def)
        then show ?thesis
          using lim bs ds' r' by (auto simp: within_limit_def f')
      qed
      from ds' r' next_ok show ?thesis by auto
    qed
  qed
qed

lemma serve_within:
  "within_limit c m \<Longrightarrow> obedient h rs c m \<Longrightarrow>
     int (length (c__datastore (fst (snd (serve h rs c))))) \<le>
       \<bar>c__limit (fst (snd (serve h rs c)))\<bar>"
proof (induction rs arbitrary: c m)
  case Nil
  then show ?case by (simp add: within_limit_bounded)
next
  case (Cons r rs)
  obtain x c1 evs1 where mc: "mod_callback h r c = (x, c1, evs1)"
    by (cases "mod_callback h r c") auto
  from Cons.prems(2) have k: "keeps_to h c m r" by simp
  note step = mod_callback_within [OF Cons.prems(1) k mc]
  show ?case
  proof (cases "x = None \<and> sent evs1 \<noteq> []")
    case False
    then have "fst (snd (serve h (r # rs) c)) = c1"
      using mc by (auto simp: sent_nonempty split: option.splits)
    with step show ?thesis by simp
  next
    case True
    then obtain m' ms where s: "sent evs1 = m' # ms" by (cases "sent evs1") auto
    from step s have w': "within_limit c1 m'" by blast
    from Cons.prems(2) mc True s have o': "obedient h rs c1 m'" by simp
    have "fst (snd (serve h (r # rs) c)) = fst (snd (serve h rs c1))"
      using mc True by (cases "serve h rs c1") (auto simp: sent_nonempty)
    with Cons.IH [OF w' o'] show ?thesis by simp
  qed
qed

lemma mod_callback_limit: "c__limit (fst (snd (mod_callback h r c))) = c__limit c"
proof (cases "decoded h r c")
  case None
  then obtain e where "r = Exc e" using decoded_None by blast
  then show ?thesis by (simp add: mod_callback_Exc)
next
  case (Some dd)
  show ?thesis
  proof (cases dd)
    case (Inl e)
    with Some show ?thesis by (simp add: mod_callback_raise)
  next
    case (Inr rr)
    show ?thesis
    proof (cases "c__tailable c \<or> starting_from rr = c__retrieved c")
      case False
      with Some Inr show ?thesis by (simp add: mod_callback_assert)
    next
      case True
      from Some Inr have d: "decoded h r c = Some (Inr rr)" by simp
      show ?thesis
        by (simp add: mod_callback_apply [OF d True] Let_def loop_fields die_state)
    qed
  qed
qed

lemma serve_limit: "c__limit (fst (snd (serve h rs c))) = c__limit c"
proof (induction rs arbitrary: c)
  case Nil
  show ?case by simp
next
  case (Cons r rs)
  obtain x c1 evs1 where mc: "mod_callback h r c = (x, c1, evs1)"
    by (cases "mod_callback h r c") auto
  have l1: "c__limit c1 = c__limit c" using mod_callback_limit [of h r c] mc by simp
  show ?case
  proof (cases "x = None \<and> list_ex is_send evs1")
    case False
    then have "fst (snd (serve h (r # rs) c)) = c1"
      using mc by (auto split: option.splits)
    with l1 show ?thesis by simp
  next
    case True
    have "fst (snd (serve h (r # rs) c)) = fst (snd (serve h rs c1))"
      using mc True by (cases "serve h rs c1") auto
    with Cons.IH [of c1] l1 show ?thesis by simp
  qed
qed

text \<open>
  C8, as stated, fails: the cursor keeps every document of every reply. With the limit
  7, a first reply of five documents and a second reply of five documents (to a
  get-more that asked for two), ten documents are accumulated.
\<close>

theorem limit_overrun:
  "c__limit example_cursor = 7 \<and>
   length (c__datastore (fst (snd (drive example_helpers [Raw ''first5'', Raw ''next5'']
                                     example_cursor)))) = 10"
  by (simp add: example_overrun) (simp add: example_cursor_def)

text \<open>
  C8, amended. A cursor with a nonzero limit and a batch size that is not negative is
  driven from its unqueried state (no id, nothing retrieved, buffered or accumulated, not
  killed, no error). If every reply counts its own documents and carries no more of
  them than the message it answers asked for, the documents accumulated never exceed
  the absolute value of the limit. In particular, with the limit 7, a first reply of
  five documents and a second of the two the get-more asks for, exactly seven documents
  are accumulated and \<^verbatim>\<open>close_cursor\<close> is called for the id 123, still live.
\<close>

theorem limit_bounds_sink:
  "(c__limit c \<noteq> 0 \<and> 0 \<le> c__batch_size c \<and> c__id c = None \<and> c__retrieved c = 0 \<and>
    c__data c = [] \<and> c__datastore c = [] \<and> \<not> c__killed c \<and> c__error c = None \<and>
    obedient_run h rs c \<longrightarrow>
      int (length (c__datastore (fst (snd (drive h rs c))))) \<le> \<bar>c__limit c\<bar> \<and>
      c__limit (fst (snd (drive h rs c))) = c__limit c) \<and>
   drive example_helpers [Raw ''first5'', Raw ''next2''] example_cursor =
     (None,
      example_cursor\<lparr> c__id := Some 123, c__retrieved := 7, c__killed := True,
                      c__datastore := [doc 0, doc 1, doc 2, doc 3, doc 4, doc 5, doc 6] \<rparr>,
      [SendMessage (Query 0 ''db.things'' 0 7 [(''$query'', PDict [])] PNone),
       SendMessage (GetMore ''db.things'' 2 123),
       CloseCursor 123 None,
       CallbackDocs [doc 0, doc 1, doc 2, doc 3, doc 4, doc 5, doc 6]])"
proof -
  have a: "int (length (c__datastore (fst (snd (drive h rs c))))) \<le> \<bar>c__limit c\<bar> \<and>
           c__limit (fst (snd (drive h rs c))) = c__limit c"
    if lim: "c__limit c \<noteq> 0" and bs: "0 \<le> c__batch_size c" and idn: "c__id c = None"
      and r0: "c__retrieved c = 0" and d0: "c__data c = []" and s0: "c__datastore c = []"
      and nk: "\<not> c__killed c" and ne: "c__error c = None" and ob: "obedient_run h rs c"
  proof -
    let ?c1 = "snd (query_spec c)"
    let ?m = "Query (query_options c) (full_name (c__collection c))
                    (c__skip c) (c__limit c) (fst (query_spec c)) (c__fields c)"
    have l: "loop h c = (?c1, [SendMessage ?m])"
      by (rule loop_unqueried [OF ne d0 nk idn])
    have w: "within_limit ?c1 ?m"
      using lim bs r0 d0 s0 ne by (simp add: within_limit_def query_spec_fields asked_def)
    have o: "obedient h rs ?c1 ?m" using ob by (simp add: obedient_run_def l)
    have st: "fst (snd (drive h rs c)) = fst (snd (serve h rs ?c1))"
      unfolding drive_state l by (simp add: is_send_def)
    have lm: "c__limit (fst (snd (serve h rs ?c1))) = c__limit c"
      by (simp add: serve_limit query_spec_fields)
    show ?thesis using serve_within [OF w o] by (simp add: st lm)
  qed
  show ?thesis using a example_run by blast
qed

lemma example_obedient:
  "obedient_run example_helpers [Raw ''first5'', Raw ''next2''] example_cursor"
  by (simp add: obedient_run_def keeps_to_def decoded_def asked_def run_defs example_defs)

theorem limit_bounds_sink_witness:
  "obedient_run example_helpers [Raw ''first5'', Raw ''next2''] example_cursor \<and>
   int (length (c__datastore (fst (snd (drive example_helpers [Raw ''first5'', Raw ''next2'']
                                          example_cursor))))) \<le> 7 \<and>
   length (c__datastore (fst (snd (drive example_helpers [Raw ''first5'', Raw ''next2'']
                                     example_cursor)))) = 7 \<and>
   kills (snd (snd (drive example_helpers [Raw ''first5'', Raw ''next2''] example_cursor))) = 1"
proof -
  note t = limit_bounds_sink [of example_cursor example_helpers "[Raw ''first5'', Raw ''next2'']"]
  have pre: "c__limit example_cursor \<noteq> 0 \<and> 0 \<le> c__batch_size example_cursor \<and>
             c__id example_cursor = None \<and> c__retrieved example_cursor = 0 \<and>
             c__data example_cursor = [] \<and> c__datastore example_cursor = [] \<and>
             \<not> c__killed example_cursor \<and> c__error example_cursor = None"
    by (simp add: example_cursor_def)
  from t pre example_obedient
  have b: "int (length (c__datastore (fst (snd (drive example_helpers
             [Raw ''first5'', Raw ''next2''] example_cursor))))) \<le> \<bar>c__limit example_cursor\<bar>"
    by blast
  have l: "c__limit example_cursor = 7" by (simp add: example_cursor_def)
  from t have run: "drive example_helpers [Raw ''first5'', Raw ''next2''] example_cursor =
     (None,
      example_cursor\<lparr> c__id := Some 123, c__retrieved := 7, c__killed := True,
                      c__datastore := [doc 0, doc 1, doc 2, doc 3, doc 4, doc 5, doc 6] \<rparr>,
      [SendMessage (Query 0 ''db.things'' 0 7 [(''$query'', PDict [])] PNone),
       SendMessage (GetMore ''db.things'' 2 123),
       CloseCursor 123 None,
       CallbackDocs [doc 0, doc 1, doc 2, doc 3, doc 4, doc 5, doc 6]])"
    by blast
  from b l have "int (length (c__datastore (fst (snd (drive example_helpers
             [Raw ''first5'', Raw ''next2''] example_cursor))))) \<le> 7"
    by simp
  moreover have "length (c__datastore (fst (snd (drive example_helpers
             [Raw ''first5'', Raw ''next2''] example_cursor)))) = 7"
    by (simp add: run)
  moreover have "kills (snd (snd (drive example_helpers [Raw ''first5'', Raw ''next2'']
             example_cursor))) = 1"
    by (simp add: run kills_def is_close_def)
  ultimately show ?thesis using example_obedient by blast
qed

end
